theory Spec2Isabelle
  imports Main
begin

section \<open>The task execution engine of \<open>skyvern/forge/agent.py\<close>\<close>

text \<open>
  A shallow embedding of \<open>ForgeAgent\<close>. Python objects become records, enums become
  datatypes, \<open>None\<close>-able values become \<open>option\<close>s, and every \<open>await\<close> on a
  collaborator (\<open>app.DATABASE\<close>, \<open>app.BROWSER_MANAGER\<close>, \<open>app.ARTIFACT_MANAGER\<close>,
  \<open>app.LLM_API_HANDLER\<close>, \<open>ActionHandler\<close>, \<open>requests\<close>, ...) becomes a call of a field
  of an environment record that takes the state of the outside world and returns either
  an exception or a value, together with the new state of the world. The collaborators
  are not part of \<open>agent.py\<close>, so they stay parameters: every theorem below holds for
  every behaviour of theirs.
\<close>

subsection \<open>Data model\<close>

datatype StepStatus = S_created | S_running | S_failed | S_completed

datatype TaskStatus = T_created | T_running | T_failed | T_terminated | T_completed

datatype ActionType =
    CLICK | INPUT_TEXT | UPLOAD_FILE | SELECT_OPTION | CHECKBOX
  | WAIT | NULL_ACTION | SOLVE_CAPTCHA | TERMINATE | COMPLETE

text \<open>JSON-like values: \<open>dict[str, Any] | list | str\<close> payloads, LLM responses, element trees.\<close>

datatype json =
    JNull
  | JBool bool
  | JNum int
  | JStr string
  | JList "json list"
  | JDict "(string \<times> json) list"

text \<open>
  An \<open>Action\<close>. \<open>web_element_id\<close> is \<open>Some e\<close> exactly for the instances of \<open>WebAction\<close>,
  whose \<open>element_id\<close> is \<open>e\<close>.
\<close>

record Action =
  action_type :: ActionType
  web_element_id :: "string option"
  reasoning :: "string option"
  a_data_extraction_goal :: "string option"

record ActionResult =
  success :: bool
  data :: "json option"
  javascript_triggered :: bool
  step_retry_number :: "int option"
  step_order :: "int option"

record AgentStepOutput =
  o_action_results :: "ActionResult list option"
  o_actions_and_results :: "(Action \<times> ActionResult list) list option"
  o_errors :: "json list"

record Step =
  step_id :: string
  s_task_id :: string
  s_organization_id :: "string option"
  s_order :: int
  s_retry_index :: int
  s_is_last :: bool
  s_status :: StepStatus
  s_output :: "AgentStepOutput option"

record Task =
  task_id :: string
  organization_id :: "string option"
  workflow_run_id :: "string option"
  url :: string
  title :: "string option"
  navigation_goal :: "string option"
  data_extraction_goal :: "string option"
  navigation_payload :: json
  error_code_mapping :: "json option"
  webhook_callback_url :: "string option"
  t_status :: TaskStatus
  extracted_information :: "json option"
  failure_reason :: "string option"

record Organization =
  org_organization_id :: string
  max_steps_per_run :: "int option"

record ScrapedPage =
  html :: string
  elements :: "json list"
  element_tree :: json
  element_tree_trimmed :: json
  id_to_xpath_dict :: json
  screenshots :: "string list"

record DetailedAgentStepOutput =
  d_scraped_page :: "ScrapedPage option"
  d_extract_action_prompt :: "string option"
  d_llm_response :: "json option"
  d_actions :: "Action list option"
  d_action_results :: "ActionResult list option"
  d_actions_and_results :: "(Action \<times> ActionResult list) list option"

text \<open>The fields of \<open>SettingsManager.get_settings()\<close> that the modelled methods read.\<close>

record Settings =
  MAX_RETRIES_PER_STEP :: int
  MAX_STEPS_PER_RUN :: int
  PROMPT_ACTION_HISTORY_WINDOW :: int

text \<open>
  What a Python call can raise. \<open>TaskNotFound\<close> and \<open>FailedToSendWebhook\<close> carry the task
  id and the exception they were raised \<open>from\<close>. \<open>CancelledError\<close> is
  \<open>asyncio.CancelledError\<close>, which an \<open>await\<close> raises when the running task is cancelled;
  \<open>KeyboardInterrupt\<close> and \<open>SystemExit\<close> are the interpreter's. These three derive from
  \<open>BaseException\<close> and not from \<open>Exception\<close>, so an \<open>except Exception\<close> clause lets them
  pass; every other member is a subclass of \<open>Exception\<close>.
\<close>

datatype exn =
    TargetClosedError
  | BrowserStateMissingPage
  | MissingBrowserStatePage string
  | InvalidWorkflowTaskURLState string
  | TaskNotFound string "exn option"
  | FailedToSendWebhook string exn
  | KeyError string
  | TypeError
  | JSONDecodeError
  | InvalidStepTransition
  | OverflowError
  | OtherError string
  | CancelledError
  | KeyboardInterrupt
  | SystemExit

text \<open>\<open>isinstance(e, Exception)\<close>.\<close>

definition is_Exception :: "exn \<Rightarrow> bool" where
  "is_Exception e =
     (case e of
        CancelledError \<Rightarrow> False
      | KeyboardInterrupt \<Rightarrow> False
      | SystemExit \<Rightarrow> False
      | _ \<Rightarrow> True)"

subsection \<open>Python idioms\<close>

text \<open>Truthiness of a \<open>str | None\<close> and of an \<open>int | None\<close>.\<close>

definition truthy_str :: "string option \<Rightarrow> bool" where
  "truthy_str v = (case v of None \<Rightarrow> False | Some s \<Rightarrow> s \<noteq> [])"

definition truthy_int :: "int option \<Rightarrow> bool" where
  "truthy_int v = (case v of None \<Rightarrow> False | Some n \<Rightarrow> n \<noteq> 0)"

text \<open>\<open>xs[i:]\<close>: a negative start counts from the end, and both ends are clamped.\<close>

definition py_slice_from :: "int \<Rightarrow> 'a list \<Rightarrow> 'a list" where
  "py_slice_from i xs =
     (let n = int (length xs);
          start = (if i < 0 then max (n + i) 0 else min i n)
      in drop (nat start) xs)"

text \<open>\<open>str(n)\<close> for an \<open>int\<close>, as an f-string renders it.\<close>

fun str_nat :: "nat \<Rightarrow> string" where
  "str_nat n =
     (if n < 10 then [''0123456789'' ! n]
      else str_nat (n div 10) @ [''0123456789'' ! (n mod 10)])"

declare str_nat.simps [simp del]

definition str_int :: "int \<Rightarrow> string" where
  "str_int i = (if i < 0 then CHR ''-'' # str_nat (nat (- i)) else str_nat (nat i))"

text \<open>\<open>d[key]\<close> on a parsed JSON value.\<close>

definition py_getitem :: "json \<Rightarrow> string \<Rightarrow> exn + json" where
  "py_getitem j k =
     (case j of
        JDict kvs \<Rightarrow> (case map_of kvs k of None \<Rightarrow> Inl (KeyError k) | Some v \<Rightarrow> Inr v)
      | _ \<Rightarrow> Inl TypeError)"

subsection \<open>Pure parts of the methods\<close>

text \<open>
  \<open>handle_completed_step\<close>, lines 986-992: \<open>max_steps_per_run = override_max_steps_per_run
  or organization.max_steps_per_run or SettingsManager.get_settings().MAX_STEPS_PER_RUN\<close>.
  Python's \<open>a or b\<close> is \<open>a\<close> when \<open>a\<close> is truthy and \<open>b\<close> otherwise; the setting is an \<open>int\<close>.
\<close>

definition py_or_int :: "int option \<Rightarrow> int \<Rightarrow> int" where
  "py_or_int a b = (case a of None \<Rightarrow> b | Some n \<Rightarrow> if truthy_int a then n else b)"

definition resolve_max_steps_per_run :: "int option \<Rightarrow> int option \<Rightarrow> int \<Rightarrow> int" where
  "resolve_max_steps_per_run override_max_steps_per_run org_max_steps_per_run settings_max =
     py_or_int override_max_steps_per_run (py_or_int org_max_steps_per_run settings_max)"

text \<open>
  The ceiling as the specification words it: \<open>context.max_steps_override ??
  organization.max_steps_per_run ?? settings.MAX_STEPS_PER_RUN\<close>, the first defined.
\<close>

definition spec_first_defined :: "int option \<Rightarrow> int option \<Rightarrow> int \<Rightarrow> int" where
  "spec_first_defined override_max org_max settings_max =
     (case override_max of
        Some n \<Rightarrow> n
      | None \<Rightarrow> (case org_max of Some m \<Rightarrow> m | None \<Rightarrow> settings_max))"

text \<open>
  \<open>agent_step\<close>, lines 386-392: the WAIT actions are dropped when the list has more than
  one action and holds both WAIT and other actions.
\<close>

definition prune_wait_actions :: "Action list \<Rightarrow> Action list" where
  "prune_wait_actions actions =
     (if length actions > 1 then
        (let wait_actions_to_skip = filter (\<lambda>action. action_type action = WAIT) actions;
             wait_actions_len = length wait_actions_to_skip
         in if wait_actions_len > 0 \<and> wait_actions_len < length actions
            then filter (\<lambda>action. action_type action \<noteq> WAIT) actions
            else actions)
      else actions)"

text \<open>
  \<open>_build_and_record_step_prompt\<close>, lines 583-587: the window of steps and the action
  results collected from it. A step with no output, or with no or empty
  \<open>action_results\<close>, adds nothing.
\<close>

definition window_steps :: "int \<Rightarrow> Step list \<Rightarrow> Step list" where
  "window_steps window steps = py_slice_from (-1 * window) steps"

fun collect_action_results :: "ActionResult list \<Rightarrow> Step list \<Rightarrow> ActionResult list" where
  "collect_action_results action_results [] = action_results"
| "collect_action_results action_results (window_step # rest) =
     (case s_output window_step of
        None \<Rightarrow> collect_action_results action_results rest
      | Some out \<Rightarrow>
          (case o_action_results out of
             None \<Rightarrow> collect_action_results action_results rest
           | Some rs \<Rightarrow>
               if rs \<noteq> [] then collect_action_results (action_results @ rs) rest
               else collect_action_results action_results rest))"

definition prompt_action_results :: "int \<Rightarrow> Step list \<Rightarrow> ActionResult list" where
  "prompt_action_results window steps = collect_action_results [] (window_steps window steps)"

text \<open>
  The history as the specification words it: the action results of the last \<open>window\<close>
  steps, flattened in step order.
\<close>

definition step_action_results :: "Step \<Rightarrow> ActionResult list" where
  "step_action_results s =
     (case s_output s of
        None \<Rightarrow> []
      | Some out \<Rightarrow> (case o_action_results out of None \<Rightarrow> [] | Some rs \<Rightarrow> rs))"

definition spec_last_steps :: "nat \<Rightarrow> Step list \<Rightarrow> Step list" where
  "spec_last_steps k steps = drop (length steps - k) steps"

definition spec_prompt_action_results :: "nat \<Rightarrow> Step list \<Rightarrow> ActionResult list" where
  "spec_prompt_action_results k steps = concat (map step_action_results (spec_last_steps k steps))"

text \<open>
  \<open>get_extracted_information_for_task\<close>, lines 629-652. The three nested loops return from
  the method at the first successful result of a COMPLETE action; \<open>Some d\<close> below is that
  return with \<open>action_result.data = d\<close> (which may itself be \<open>None\<close>), and \<open>None\<close> is the
  loop running to its end.
\<close>

fun scan_action_results :: "ActionResult list \<Rightarrow> json option option" where
  "scan_action_results [] = None"
| "scan_action_results (action_result # rest) =
     (if success action_result then Some (data action_result) else scan_action_results rest)"

fun scan_actions_and_results :: "(Action \<times> ActionResult list) list \<Rightarrow> json option option" where
  "scan_actions_and_results [] = None"
| "scan_actions_and_results ((action, action_results) # rest) =
     (if action_type action \<noteq> COMPLETE then scan_actions_and_results rest
      else (case scan_action_results action_results of
              Some d \<Rightarrow> Some d
            | None \<Rightarrow> scan_actions_and_results rest))"

fun scan_steps :: "Step list \<Rightarrow> json option" where
  "scan_steps [] = None"
| "scan_steps (step # rest) =
     (if s_status step \<noteq> S_completed then scan_steps rest
      else (case s_output step of
              None \<Rightarrow> scan_steps rest
            | Some out \<Rightarrow>
                (case o_actions_and_results out of
                   None \<Rightarrow> scan_steps rest
                 | Some aars \<Rightarrow>
                     if aars = [] then scan_steps rest
                     else (case scan_actions_and_results aars of
                             Some d \<Rightarrow> d
                           | None \<Rightarrow> scan_steps rest))))"

definition extracted_information_of_steps :: "Step list \<Rightarrow> json option" where
  "extracted_information_of_steps steps = scan_steps (rev steps)"

text \<open>
  The same result as the specification words it: the steps in reverse order, without
  those that are not completed or have no \<open>actions_and_results\<close>; in each, the data of
  the successful results of its COMPLETE actions, in order; the first of all these.
\<close>

definition qualifying_step :: "Step \<Rightarrow> bool" where
  "qualifying_step s =
     (s_status s = S_completed \<and>
      (case s_output s of
         None \<Rightarrow> False
       | Some out \<Rightarrow> (case o_actions_and_results out of None \<Rightarrow> False | Some aars \<Rightarrow> aars \<noteq> [])))"

definition complete_data_of_step :: "Step \<Rightarrow> json option list" where
  "complete_data_of_step s =
     (case s_output s of
        None \<Rightarrow> []
      | Some out \<Rightarrow>
          (case o_actions_and_results out of
             None \<Rightarrow> []
           | Some aars \<Rightarrow>
               concat (map (\<lambda>(action, action_results).
                              if action_type action = COMPLETE
                              then map data (filter success action_results) else [])
                           aars)))"

definition spec_extracted_information :: "Step list \<Rightarrow> json option" where
  "spec_extracted_information steps =
     (case concat (map complete_data_of_step (filter qualifying_step (rev steps))) of
        [] \<Rightarrow> None
      | d # _ \<Rightarrow> d)"

subsection \<open>Effects\<close>

text \<open>
  Values of the \<open>updates: dict[str, Any]\<close> dictionaries of \<open>update_step\<close> and
  \<open>update_task\<close>, and of the attributes \<open>getattr\<close> reads back.
\<close>

datatype pyval =
    PyNone
  | PyStepStatus StepStatus
  | PyTaskStatus TaskStatus
  | PyOutput AgentStepOutput
  | PyBool bool
  | PyInt int
  | PyStr string
  | PyJson json

datatype ArtifactType =
    SCREENSHOT_ACTION | SCREENSHOT_FINAL | HTML_SCRAPE | HTML_ACTION | RECORDING | HAR | TRACE
  | VISIBLE_ELEMENTS_ID_XPATH_MAP | VISIBLE_ELEMENTS_TREE | VISIBLE_ELEMENTS_TREE_TRIMMED

text \<open>\<open>create_artifact(step, artifact_type, data=...)\<close> or \<open>(..., path=...)\<close>.\<close>

datatype ArtifactPayload = Data string | Path string

text \<open>
  A \<open>BrowserState\<close> is a shared mutable object owned by the browser manager: the model
  holds a handle, and reads its attributes from the world.
\<close>

datatype BrowserState = BrowserRef nat

datatype WorkflowRunContext = ContextRef nat

record Artifact =
  artifact_id :: string
  artifact_type :: ArtifactType

text \<open>
  What \<open>requests.post\<close> returns: \<open>resp.ok\<close>, \<open>resp.status_code\<close>, \<open>resp.text\<close>, and what
  calling \<open>resp.json()\<close> does (it raises when the body is not JSON).
\<close>

record Response =
  ok :: bool
  status_code :: int
  resp_text :: string
  resp_json :: "exn + json"

text \<open>The keyword arguments of \<open>app.DATABASE.create_task\<close>.\<close>

record CreateTaskArgs =
  ct_url :: string
  ct_title :: "string option"
  ct_webhook_callback_url :: "string option"
  ct_navigation_goal :: "string option"
  ct_data_extraction_goal :: "string option"
  ct_navigation_payload :: json
  ct_organization_id :: "string option"
  ct_proxy_location :: "string option"
  ct_extracted_information_schema :: "json option"
  ct_workflow_run_id :: "string option"
  ct_order :: "int option"
  ct_retry :: "int option"
  ct_error_code_mapping :: "json option"

text \<open>The keyword arguments of \<open>prompt_engine.load_prompt("extract-action", ...)\<close>.\<close>

record PromptVars =
  pv_navigation_goal :: "string option"
  pv_navigation_payload_str :: string
  pv_url :: string
  pv_elements :: json
  pv_data_extraction_goal :: "string option"
  pv_action_history :: string
  pv_error_code_mapping_str :: "string option"
  pv_utc_datetime :: int

record TaskBlock =
  tb_parameter_keys :: "string list"
  tb_url :: "string option"
  tb_title :: "string option"
  tb_navigation_goal :: "string option"
  tb_data_extraction_goal :: "string option"
  tb_data_schema :: "json option"
  tb_error_code_mapping :: "json option"

record Workflow =
  workflow_id :: string
  wf_organization_id :: "string option"

record WorkflowRun =
  wr_workflow_run_id :: string
  wr_proxy_location :: "string option"

text \<open>
  The observable events: the persistence writes, the action dispatches, the webhook POST,
  the browser teardown and the log lines that the properties below speak about, each
  recorded by the model at the moment the method makes the call. Calls of the other
  collaborators reach the environment, but leave no event.
\<close>

datatype event =
    LogUpdatingStep string string "(string \<times> pyval \<times> pyval) list"
  | LogUpdatingTask string "(string \<times> pyval \<times> pyval) list"
  | LogWebhookSentSuccessfully string int string
  | LogWebhookFailed string int json string
  | LogInfo string
  | CallDbUpdateStep string string "string option" "(string \<times> pyval) list"
  | CallDbUpdateTask string "string option" "(string \<times> pyval) list"
  | CallDbCreateStep string "string option" int int
  | CallDbCreateTask CreateTaskArgs
  | CallHandleAction Action
  | CallLoadPrompt string PromptVars
  | CallTakeScreenshot
  | CallRequestsPost string string "(string \<times> string) list"
  | CallCleanupForTask string bool
  | CallWaitForUpload string

record 'w world =
  ext :: 'w
  trace :: "event list"

text \<open>A computation: from a state to an exception or a value, and the new state.\<close>

type_synonym ('s, 'a) io = "'s \<Rightarrow> (exn + 'a) \<times> 's"

definition ret :: "'a \<Rightarrow> ('s, 'a) io" where
  "ret x = (\<lambda>s. (Inr x, s))"

definition raise :: "exn \<Rightarrow> ('s, 'a) io" where
  "raise e = (\<lambda>s. (Inl e, s))"

definition bind :: "('s, 'a) io \<Rightarrow> ('a \<Rightarrow> ('s, 'b) io) \<Rightarrow> ('s, 'b) io" where
  "bind m k = (\<lambda>s. case m s of (Inl e, s') \<Rightarrow> (Inl e, s') | (Inr x, s') \<Rightarrow> k x s')"

text \<open>
  \<open>catch m h\<close> hands whatever \<open>m\<close> raises to \<open>h\<close>, which re-raises what its \<open>except\<close>
  clause does not name. \<open>catch_Exception m h\<close> is \<open>try: m except Exception as e: h e\<close>:
  what is not an \<open>Exception\<close> passes through.
\<close>

definition catch :: "('s, 'a) io \<Rightarrow> (exn \<Rightarrow> ('s, 'a) io) \<Rightarrow> ('s, 'a) io" where
  "catch m h = (\<lambda>s. case m s of (Inl e, s') \<Rightarrow> h e s' | (Inr x, s') \<Rightarrow> (Inr x, s'))"

definition catch_Exception :: "('s, 'a) io \<Rightarrow> (exn \<Rightarrow> ('s, 'a) io) \<Rightarrow> ('s, 'a) io" where
  "catch_Exception m h = catch m (\<lambda>e. if is_Exception e then h e else raise e)"

definition of_result :: "exn + 'a \<Rightarrow> ('s, 'a) io" where
  "of_result r = (\<lambda>s. (r, s))"

text \<open>A call of a collaborator, and the recording of an event.\<close>

definition call :: "('w \<Rightarrow> (exn + 'a) \<times> 'w) \<Rightarrow> ('w world, 'a) io" where
  "call f = (\<lambda>w. case f (ext w) of (r, x') \<Rightarrow> (r, w\<lparr>ext := x'\<rparr>))"

definition emit :: "event \<Rightarrow> ('w world, unit) io" where
  "emit ev = (\<lambda>w. (Inr (), w\<lparr>trace := trace w @ [ev]\<rparr>))"

definition read_world :: "('w \<Rightarrow> 'a) \<Rightarrow> ('w world, 'a) io" where
  "read_world g = (\<lambda>w. (Inr (g (ext w)), w))"

text \<open>
  The collaborators. The first group are pure functions of code that is not part of
  \<open>agent.py\<close> (\<open>Step.validate_update\<close>, \<open>Task.validate_update\<close>,
  \<open>DetailedAgentStepOutput.to_agent_step_output\<close>, \<open>parse_actions\<close>, \<open>Step.is_goal_achieved\<close>,
  \<open>Step.is_terminated\<close>, \<open>json.dumps\<close> with its \<open>indent\<close>, \<open>ActionResult.model_dump\<close>,
  \<open>Task.to_task_response(...).model_dump_json(...)\<close>, \<open>generate_skyvern_signature\<close>); a
  validation returns the exception it raises, if any. The second group act on the world.
  \<open>asyncio_sleep\<close> is \<open>asyncio.sleep(random.uniform(1.0, 2.0))\<close>, and
  \<open>long_running_task_warning_order n\<close> is
  \<open>int(n * settings.LONG_RUNNING_TASK_WARNING_RATIO - 1)\<close>, a computation on floats, which
  raises \<open>OverflowError\<close> when \<open>n\<close> is too large for a float.
\<close>

record 'w env =
  settings :: Settings
  step_validate_update ::
    "Step \<Rightarrow> StepStatus option \<Rightarrow> AgentStepOutput option \<Rightarrow> bool option \<Rightarrow> exn option"
  task_validate_update :: "Task \<Rightarrow> TaskStatus \<Rightarrow> json option \<Rightarrow> string option \<Rightarrow> exn option"
  to_agent_step_output :: "DetailedAgentStepOutput \<Rightarrow> AgentStepOutput"
  parse_actions :: "Task \<Rightarrow> json \<Rightarrow> exn + Action list"
  is_goal_achieved :: "Step \<Rightarrow> bool"
  is_terminated :: "Step \<Rightarrow> bool"
  json_dumps :: "int option \<Rightarrow> json \<Rightarrow> string"
  model_dump :: "ActionResult \<Rightarrow> json"
  task_response_json :: "Task \<Rightarrow> string option \<Rightarrow> string option \<Rightarrow> string"
  generate_skyvern_signature :: "string \<Rightarrow> string \<Rightarrow> string"
  db_update_step ::
    "string \<Rightarrow> string \<Rightarrow> string option \<Rightarrow> (string \<times> pyval) list \<Rightarrow> 'w \<Rightarrow> (exn + Step) \<times> 'w"
  db_create_step :: "string \<Rightarrow> string option \<Rightarrow> int \<Rightarrow> int \<Rightarrow> 'w \<Rightarrow> (exn + Step) \<times> 'w"
  db_update_task ::
    "string \<Rightarrow> string option \<Rightarrow> (string \<times> pyval) list \<Rightarrow> 'w \<Rightarrow> (exn + Task) \<times> 'w"
  db_create_task :: "CreateTaskArgs \<Rightarrow> 'w \<Rightarrow> (exn + Task) \<times> 'w"
  db_get_task :: "string \<Rightarrow> string option \<Rightarrow> 'w \<Rightarrow> (exn + Task option) \<times> 'w"
  db_get_task_steps :: "string \<Rightarrow> string option \<Rightarrow> 'w \<Rightarrow> (exn + Step list) \<times> 'w"
  db_get_artifact ::
    "string \<Rightarrow> string \<Rightarrow> ArtifactType \<Rightarrow> string option \<Rightarrow> 'w \<Rightarrow> (exn + Artifact option) \<times> 'w"
  scrape_website :: "BrowserState \<Rightarrow> string \<Rightarrow> 'w \<Rightarrow> (exn + ScrapedPage) \<times> 'w"
  create_artifact :: "Step \<Rightarrow> ArtifactType \<Rightarrow> ArtifactPayload \<Rightarrow> 'w \<Rightarrow> (exn + string) \<times> 'w"
  update_artifact_data :: "string option \<Rightarrow> string option \<Rightarrow> string \<Rightarrow> 'w \<Rightarrow> (exn + unit) \<times> 'w"
  wait_for_upload_aiotasks_for_task :: "string \<Rightarrow> 'w \<Rightarrow> (exn + unit) \<times> 'w"
  get_share_link :: "Artifact \<Rightarrow> 'w \<Rightarrow> (exn + string option) \<times> 'w"
  load_prompt :: "string \<Rightarrow> PromptVars \<Rightarrow> 'w \<Rightarrow> (exn + string) \<times> 'w"
  llm_api_handler :: "string \<Rightarrow> Step \<Rightarrow> string list \<Rightarrow> 'w \<Rightarrow> (exn + json) \<times> 'w"
  handle_action ::
    "ScrapedPage \<Rightarrow> Task \<Rightarrow> Step \<Rightarrow> BrowserState \<Rightarrow> Action \<Rightarrow> 'w \<Rightarrow> (exn + ActionResult list) \<times> 'w"
  page_url :: "BrowserState \<Rightarrow> 'w \<Rightarrow> string option"
  video_artifact_id :: "BrowserState \<Rightarrow> 'w \<Rightarrow> string option"
  traces_dir :: "BrowserState \<Rightarrow> 'w \<Rightarrow> string option"
  has_browser_context :: "BrowserState \<Rightarrow> 'w \<Rightarrow> bool"
  take_screenshot :: "BrowserState \<Rightarrow> 'w \<Rightarrow> (exn + string) \<times> 'w"
  page_content :: "BrowserState \<Rightarrow> 'w \<Rightarrow> (exn + string) \<times> 'w"
  get_video_data :: "string \<Rightarrow> BrowserState \<Rightarrow> 'w \<Rightarrow> (exn + string) \<times> 'w"
  get_har_data :: "string \<Rightarrow> BrowserState \<Rightarrow> 'w \<Rightarrow> (exn + string) \<times> 'w"
  get_or_create_for_task :: "Task \<Rightarrow> 'w \<Rightarrow> (exn + BrowserState) \<times> 'w"
  get_or_create_for_workflow_run ::
    "WorkflowRun \<Rightarrow> string option \<Rightarrow> 'w \<Rightarrow> (exn + BrowserState) \<times> 'w"
  get_or_create_page :: "BrowserState \<Rightarrow> 'w \<Rightarrow> (exn + unit) \<times> 'w"
  cleanup_for_task :: "string \<Rightarrow> bool \<Rightarrow> 'w \<Rightarrow> (exn + BrowserState option) \<times> 'w"
  requests_post :: "string \<Rightarrow> string \<Rightarrow> (string \<times> string) list \<Rightarrow> 'w \<Rightarrow> (exn + Response) \<times> 'w"
  analytics_capture :: "string \<Rightarrow> TaskStatus \<Rightarrow> 'w \<Rightarrow> (exn + unit) \<times> 'w"
  context_get_value :: "WorkflowRunContext \<Rightarrow> string \<Rightarrow> 'w \<Rightarrow> (exn + json) \<times> 'w"
  max_steps_override :: "'w \<Rightarrow> int option"
  utcnow :: "'w \<Rightarrow> int"
  asyncio_sleep :: "'w \<Rightarrow> (exn + unit) \<times> 'w"
  long_running_task_warning_order :: "int \<Rightarrow> exn + int"

subsection \<open>\<open>update_step\<close> and \<open>update_task\<close> (lines 861-922)\<close>

definition step_getattr :: "Step \<Rightarrow> string \<Rightarrow> pyval" where
  "step_getattr step key =
     (if key = ''status'' then PyStepStatus (s_status step)
      else if key = ''output'' then (case s_output step of None \<Rightarrow> PyNone | Some out \<Rightarrow> PyOutput out)
      else if key = ''is_last'' then PyBool (s_is_last step)
      else PyInt (s_retry_index step))"

definition task_getattr :: "Task \<Rightarrow> string \<Rightarrow> pyval" where
  "task_getattr task key =
     (if key = ''status'' then PyTaskStatus (t_status task)
      else if key = ''extracted_information''
        then (case extracted_information task of None \<Rightarrow> PyNone | Some j \<Rightarrow> PyJson j)
      else (case failure_reason task of None \<Rightarrow> PyNone | Some r \<Rightarrow> PyStr r))"

text \<open>\<open>updates[key] = value\<close> for each argument that is not \<open>None\<close>, in the order of the code.\<close>

definition step_updates ::
  "StepStatus option \<Rightarrow> AgentStepOutput option \<Rightarrow> bool option \<Rightarrow> int option \<Rightarrow> (string \<times> pyval) list" where
  "step_updates status output is_last retry_index =
     (case status of None \<Rightarrow> [] | Some v \<Rightarrow> [(''status'', PyStepStatus v)]) @
     (case output of None \<Rightarrow> [] | Some v \<Rightarrow> [(''output'', PyOutput v)]) @
     (case is_last of None \<Rightarrow> [] | Some v \<Rightarrow> [(''is_last'', PyBool v)]) @
     (case retry_index of None \<Rightarrow> [] | Some v \<Rightarrow> [(''retry_index'', PyInt v)])"

definition task_updates :: "TaskStatus \<Rightarrow> json option \<Rightarrow> string option \<Rightarrow> (string \<times> pyval) list" where
  "task_updates status extracted_info reason =
     [(''status'', PyTaskStatus status)] @
     (case extracted_info of None \<Rightarrow> [] | Some v \<Rightarrow> [(''extracted_information'', PyJson v)]) @
     (case reason of None \<Rightarrow> [] | Some v \<Rightarrow> [(''failure_reason'', PyStr v)])"

text \<open>
  \<open>{key: {"old": getattr(obj, key), "new": value} for key, value in updates.items()
  if getattr(obj, key) != value}\<close>.
\<close>

definition update_comparison ::
  "(string \<Rightarrow> pyval) \<Rightarrow> (string \<times> pyval) list \<Rightarrow> (string \<times> pyval \<times> pyval) list" where
  "update_comparison getattr updates =
     map (\<lambda>(key, v). (key, getattr key, v)) (filter (\<lambda>(key, v). getattr key \<noteq> v) updates)"

definition update_step ::
  "'w env \<Rightarrow> Step \<Rightarrow> StepStatus option \<Rightarrow> AgentStepOutput option \<Rightarrow> bool option \<Rightarrow> int option
     \<Rightarrow> ('w world, Step) io" where
  "update_step env step status output is_last retry_index =
     (case step_validate_update env step status output is_last of
        Some e \<Rightarrow> raise e
      | None \<Rightarrow>
          bind (emit (LogUpdatingStep (s_task_id step) (step_id step)
                  (update_comparison (step_getattr step)
                     (step_updates status output is_last retry_index)))) (\<lambda>_.
          bind (emit (CallDbUpdateStep (s_task_id step) (step_id step) (s_organization_id step)
                  (step_updates status output is_last retry_index))) (\<lambda>_.
          call (db_update_step env (s_task_id step) (step_id step) (s_organization_id step)
                  (step_updates status output is_last retry_index)))))"

definition update_task ::
  "'w env \<Rightarrow> Task \<Rightarrow> TaskStatus \<Rightarrow> json option \<Rightarrow> string option \<Rightarrow> ('w world, Task) io" where
  "update_task env task status extracted_info reason =
     (case task_validate_update env task status extracted_info reason of
        Some e \<Rightarrow> raise e
      | None \<Rightarrow>
          bind (emit (LogUpdatingTask (task_id task)
                  (update_comparison (task_getattr task)
                     (task_updates status extracted_info reason)))) (\<lambda>_.
          bind (emit (CallDbUpdateTask (task_id task) (organization_id task)
                  (task_updates status extracted_info reason))) (\<lambda>_.
          call (db_update_task env (task_id task) (organization_id task)
                  (task_updates status extracted_info reason)))))"

subsection \<open>\<open>handle_failed_step\<close> (lines 924-954)\<close>

definition max_retries_message :: "int \<Rightarrow> string" where
  "max_retries_message n = ''Max retries per step ('' @ str_int n @ '') exceeded''"

definition handle_failed_step :: "'w env \<Rightarrow> Task \<Rightarrow> Step \<Rightarrow> ('w world, Step option) io" where
  "handle_failed_step env task step =
     (if s_retry_index step \<ge> MAX_RETRIES_PER_STEP (settings env) then
        bind (update_task env task T_failed None
                (Some (max_retries_message (MAX_RETRIES_PER_STEP (settings env))))) (\<lambda>_.
        ret None)
      else
        bind (emit (CallDbCreateStep (task_id task) (organization_id task)
                (s_order step) (s_retry_index step + 1))) (\<lambda>_.
        bind (call (db_create_step env (task_id task) (organization_id task)
                (s_order step) (s_retry_index step + 1))) (\<lambda>next_step.
        ret (Some next_step))))"

subsection \<open>\<open>get_extracted_information_for_task\<close>, \<open>get_failure_reason_for_task\<close> (lines 621-678)\<close>

definition get_extracted_information_for_task :: "'w env \<Rightarrow> Task \<Rightarrow> ('w world, json option) io" where
  "get_extracted_information_for_task env task =
     bind (call (db_get_task_steps env (task_id task) (organization_id task))) (\<lambda>steps.
     ret (extracted_information_of_steps steps))"

text \<open>
  The scan for the reasoning of a TERMINATE action: \<open>Some r\<close> is the return of
  \<open>action.reasoning = r\<close> from inside the loops.
\<close>

fun scan_terminate :: "(Action \<times> ActionResult list) list \<Rightarrow> string option option" where
  "scan_terminate [] = None"
| "scan_terminate ((action, action_results) # rest) =
     (if action_type action = TERMINATE then Some (reasoning action) else scan_terminate rest)"

fun scan_failure_reason :: "Step list \<Rightarrow> string option" where
  "scan_failure_reason [] = None"
| "scan_failure_reason (step # rest) =
     (if s_status step \<noteq> S_completed then scan_failure_reason rest
      else (case s_output step of
              None \<Rightarrow> scan_failure_reason rest
            | Some out \<Rightarrow>
                (case o_actions_and_results out of
                   None \<Rightarrow> scan_failure_reason rest
                 | Some aars \<Rightarrow>
                     (case scan_terminate aars of
                        Some r \<Rightarrow> r
                      | None \<Rightarrow> scan_failure_reason rest))))"

definition get_failure_reason_for_task :: "'w env \<Rightarrow> Task \<Rightarrow> ('w world, string option) io" where
  "get_failure_reason_for_task env task =
     bind (call (db_get_task_steps env (task_id task) (organization_id task))) (\<lambda>steps.
     ret (scan_failure_reason (rev steps)))"

subsection \<open>\<open>handle_completed_step\<close> (lines 956-1035)\<close>

definition max_steps_message :: "int \<Rightarrow> string" where
  "max_steps_message n = ''Max steps per task ('' @ str_int n @ '') exceeded''"

text \<open>
  The result is the triple \<open>(is_task_completed, last_step, next_step)\<close>. The order at
  which the long-running-task warning of lines 1026-1034 is logged is computed after the
  next step has been created.
\<close>

definition handle_completed_step ::
  "'w env \<Rightarrow> Organization \<Rightarrow> Task \<Rightarrow> Step
     \<Rightarrow> ('w world, bool option \<times> Step option \<times> Step option) io" where
  "handle_completed_step env organization task step =
     (if is_goal_achieved env step then
        bind (update_step env step None None (Some True) None) (\<lambda>last_step.
        bind (get_extracted_information_for_task env task) (\<lambda>extracted_info.
        bind (update_task env task T_completed extracted_info None) (\<lambda>_.
        ret (Some True, Some last_step, None))))
      else if is_terminated env step then
        bind (update_step env step None None (Some True) None) (\<lambda>last_step.
        bind (get_failure_reason_for_task env task) (\<lambda>reason.
        bind (update_task env task T_terminated None reason) (\<lambda>_.
        ret (Some False, Some last_step, None))))
      else
        bind (read_world (max_steps_override env)) (\<lambda>override_max_steps_per_run.
        let max_steps = resolve_max_steps_per_run override_max_steps_per_run
                          (max_steps_per_run organization) (MAX_STEPS_PER_RUN (settings env))
        in if s_order step + 1 \<ge> max_steps then
             bind (update_step env step None None (Some True) None) (\<lambda>last_step.
             bind (update_task env task T_failed None (Some (max_steps_message max_steps))) (\<lambda>_.
             ret (Some False, Some last_step, None)))
           else
             bind (emit (CallDbCreateStep (task_id task) (organization_id task)
                     (s_order step + 1) 0)) (\<lambda>_.
             bind (call (db_create_step env (task_id task) (organization_id task)
                     (s_order step + 1) 0)) (\<lambda>next_step.
             bind (of_result (long_running_task_warning_order env max_steps)) (\<lambda>warning_order.
             bind (if s_order step = warning_order
                   then emit (LogInfo ''Long running task warning'')
                   else ret ()) (\<lambda>_.
             ret (None, None, Some next_step)))))))"

subsection \<open>\<open>_build_and_record_step_prompt\<close> (lines 556-619)\<close>

text \<open>Truthiness of an optional JSON value (\<open>if task.error_code_mapping\<close>).\<close>

definition truthy_json :: "json option \<Rightarrow> bool" where
  "truthy_json v =
     (case v of
        None \<Rightarrow> False
      | Some JNull \<Rightarrow> False
      | Some (JBool b) \<Rightarrow> b
      | Some (JNum n) \<Rightarrow> n \<noteq> 0
      | Some (JStr s) \<Rightarrow> s \<noteq> []
      | Some (JList xs) \<Rightarrow> xs \<noteq> []
      | Some (JDict kvs) \<Rightarrow> kvs \<noteq> [])"

definition prompt_vars :: "'w env \<Rightarrow> Task \<Rightarrow> ScrapedPage \<Rightarrow> Step list \<Rightarrow> int \<Rightarrow> PromptVars" where
  "prompt_vars env task scraped_page steps now =
     \<lparr> pv_navigation_goal = navigation_goal task,
       pv_navigation_payload_str = json_dumps env None (navigation_payload task),
       pv_url = url task,
       pv_elements = element_tree_trimmed scraped_page,
       pv_data_extraction_goal = data_extraction_goal task,
       pv_action_history =
         json_dumps env None
           (JList (map (model_dump env)
              (prompt_action_results (PROMPT_ACTION_HISTORY_WINDOW (settings env)) steps))),
       pv_error_code_mapping_str =
         (if truthy_json (error_code_mapping task)
          then map_option (json_dumps env None) (error_code_mapping task) else None),
       pv_utc_datetime = now \<rparr>"

definition build_and_record_step_prompt ::
  "'w env \<Rightarrow> Task \<Rightarrow> Step \<Rightarrow> BrowserState \<Rightarrow> ('w world, ScrapedPage \<times> string) io" where
  "build_and_record_step_prompt env task step browser_state =
     bind (call (scrape_website env browser_state (url task))) (\<lambda>scraped_page.
     bind (call (create_artifact env step HTML_SCRAPE (Data (html scraped_page)))) (\<lambda>_.
     bind (call (db_get_task_steps env (task_id task) (organization_id task))) (\<lambda>steps.
     bind (read_world (utcnow env)) (\<lambda>now.
     bind (emit (CallLoadPrompt ''extract-action''
             (prompt_vars env task scraped_page steps now))) (\<lambda>_.
     bind (call (load_prompt env ''extract-action''
             (prompt_vars env task scraped_page steps now))) (\<lambda>extract_action_prompt.
     bind (call (create_artifact env step VISIBLE_ELEMENTS_ID_XPATH_MAP
             (Data (json_dumps env (Some 2) (id_to_xpath_dict scraped_page))))) (\<lambda>_.
     bind (call (create_artifact env step VISIBLE_ELEMENTS_TREE
             (Data (json_dumps env (Some 2) (element_tree scraped_page))))) (\<lambda>_.
     bind (call (create_artifact env step VISIBLE_ELEMENTS_TREE_TRIMMED
             (Data (json_dumps env (Some 2) (element_tree_trimmed scraped_page))))) (\<lambda>_.
     ret (scraped_page, extract_action_prompt))))))))))"

subsection \<open>\<open>record_artifacts_after_action\<close> (lines 479-525)\<close>

text \<open>Each of the three recordings is in a \<open>try\<close> of its own that swallows every exception.\<close>

definition record_artifacts_after_action ::
  "'w env \<Rightarrow> Task \<Rightarrow> Step \<Rightarrow> BrowserState \<Rightarrow> ('w world, unit) io" where
  "record_artifacts_after_action env task step browser_state =
     bind (read_world (page_url env browser_state)) (\<lambda>page.
     if page = None then raise BrowserStateMissingPage
     else
       bind (catch_Exception
               (bind (emit CallTakeScreenshot) (\<lambda>_.
                bind (call (take_screenshot env browser_state)) (\<lambda>screenshot.
                bind (call (create_artifact env step SCREENSHOT_ACTION (Data screenshot))) (\<lambda>_.
                ret ()))))
               (\<lambda>_. ret ())) (\<lambda>_.
       bind (catch_Exception
               (bind (call (page_content env browser_state)) (\<lambda>page_html.
                bind (call (create_artifact env step HTML_ACTION (Data page_html))) (\<lambda>_.
                ret ())))
               (\<lambda>_. ret ())) (\<lambda>_.
       catch_Exception
         (bind (call (get_video_data env (task_id task) browser_state)) (\<lambda>video_data.
          bind (read_world (video_artifact_id env browser_state)) (\<lambda>video_id.
          call (update_artifact_data env video_id (organization_id task) video_data))))
         (\<lambda>_. ret ()))))"

subsection \<open>\<open>agent_step\<close> (lines 301-477)\<close>

text \<open>
  The local variables that the \<open>except\<close> clause of \<open>agent_step\<close> reads: \<open>step\<close>, which the
  body rebinds, and \<open>detailed_agent_step_output\<close>, which the body mutates. They are part
  of the state of the body, so that the handler sees them as they are when the exception
  is raised.
\<close>

record 'w frame =
  f_world :: "'w world"
  f_step :: Step
  f_out :: DetailedAgentStepOutput

definition lift :: "('w world, 'a) io \<Rightarrow> ('w frame, 'a) io" where
  "lift m = (\<lambda>f. case m (f_world f) of (r, w') \<Rightarrow> (r, f\<lparr>f_world := w'\<rparr>))"

definition get_step :: "('w frame, Step) io" where
  "get_step = (\<lambda>f. (Inr (f_step f), f))"

definition set_step :: "Step \<Rightarrow> ('w frame, unit) io" where
  "set_step s = (\<lambda>f. (Inr (), f\<lparr>f_step := s\<rparr>))"

definition get_out :: "('w frame, DetailedAgentStepOutput) io" where
  "get_out = (\<lambda>f. (Inr (f_out f), f))"

definition modify_out ::
  "(DetailedAgentStepOutput \<Rightarrow> DetailedAgentStepOutput) \<Rightarrow> ('w frame, unit) io" where
  "modify_out g = (\<lambda>f. (Inr (), f\<lparr>f_out := g (f_out f)\<rparr>))"

definition empty_detailed_output :: DetailedAgentStepOutput where
  "empty_detailed_output =
     \<lparr> d_scraped_page = None, d_extract_action_prompt = None, d_llm_response = None,
       d_actions = None, d_action_results = None, d_actions_and_results = None \<rparr>"

definition no_navigation_goal_action :: "Task \<Rightarrow> Action" where
  "no_navigation_goal_action task =
     \<lparr> action_type = COMPLETE, web_element_id = None,
       reasoning = Some ''Task has no navigation goal.'',
       a_data_extraction_goal = data_extraction_goal task \<rparr>"

text \<open>
  Lines 324-348: the step becomes running, the prompt is built, and the actions come from
  the LLM response or, with no navigation goal, are one COMPLETE action. The result is
  \<open>(scraped_page, extract_action_prompt, json_response, actions)\<close>.
\<close>

definition obtain_actions ::
  "'w env \<Rightarrow> Task \<Rightarrow> BrowserState
     \<Rightarrow> ('w frame, ScrapedPage \<times> string \<times> json option \<times> Action list) io" where
  "obtain_actions env task browser_state =
     bind get_step (\<lambda>step0.
     bind (lift (update_step env step0 (Some S_running) None None None)) (\<lambda>step.
     bind (set_step step) (\<lambda>_.
     bind (lift (build_and_record_step_prompt env task step browser_state))
       (\<lambda>(scraped_page, extract_action_prompt).
     bind (modify_out (\<lambda>d. d\<lparr>d_scraped_page := Some scraped_page,
                              d_extract_action_prompt := Some extract_action_prompt\<rparr>)) (\<lambda>_.
     if truthy_str (navigation_goal task) then
       bind (lift (call (llm_api_handler env extract_action_prompt step
                           (screenshots scraped_page)))) (\<lambda>json_response.
       bind (modify_out (\<lambda>d. d\<lparr>d_llm_response := Some json_response\<rparr>)) (\<lambda>_.
       bind (of_result (py_getitem json_response ''actions'')) (\<lambda>raw_actions.
       bind (of_result (parse_actions env task raw_actions)) (\<lambda>actions.
       ret (scraped_page, extract_action_prompt, Some json_response, actions)))))
     else
       ret (scraped_page, extract_action_prompt, None, [no_navigation_goal_action task]))))))"

text \<open>
  The executor loop, lines 399-451, over \<open>enumerate(actions)\<close>. The result \<open>Some r\<close> is the
  \<open>return r\<close> of line 451 from inside the loop; \<open>None\<close> is the loop's end, by exhaustion or
  by one of the two \<open>break\<close>s. \<open>results\<close> is one list object, stored in
  \<open>actions_and_results\<close> and then stamped in place, so the stored pair shows the stamped
  results; \<open>action_results\<close> is the list object that \<open>detailed_agent_step_output\<close> holds.
  The jitter sleep of line 409 is the collaborator \<open>asyncio_sleep\<close>.
\<close>

definition stamp_results :: "Step \<Rightarrow> ActionResult list \<Rightarrow> ActionResult list" where
  "stamp_results step results =
     map (\<lambda>result. result\<lparr>step_retry_number := Some (s_retry_index step),
                           step_order := Some (s_order step)\<rparr>) results"

definition store_results ::
  "nat \<Rightarrow> Action \<Rightarrow> ActionResult list \<Rightarrow> DetailedAgentStepOutput \<Rightarrow> DetailedAgentStepOutput" where
  "store_results action_idx action results d =
     d\<lparr>d_actions_and_results :=
         map_option (\<lambda>aars. aars[action_idx := (action, results)]) (d_actions_and_results d)\<rparr>"

definition extend_action_results ::
  "ActionResult list \<Rightarrow> DetailedAgentStepOutput \<Rightarrow> DetailedAgentStepOutput" where
  "extend_action_results results d =
     d\<lparr>d_action_results := map_option (\<lambda>rs. rs @ results) (d_action_results d)\<rparr>"

fun execute_actions ::
  "'w env \<Rightarrow> Task \<Rightarrow> BrowserState \<Rightarrow> ScrapedPage \<Rightarrow> (nat \<times> Action) list \<Rightarrow> string set
     \<Rightarrow> ('w frame, (Step \<times> DetailedAgentStepOutput) option) io" where
  "execute_actions env task browser_state scraped_page [] web_action_element_ids = ret None"
| "execute_actions env task browser_state scraped_page ((action_idx, action) # rest)
     web_action_element_ids =
     (if (case web_element_id action of
            None \<Rightarrow> False
          | Some element_id \<Rightarrow> element_id \<in> web_action_element_ids)
      then ret None
      else
        bind get_step (\<lambda>step.
        bind (lift (emit (CallHandleAction action))) (\<lambda>_.
        bind (lift (call (handle_action env scraped_page task step browser_state action)))
          (\<lambda>results.
        bind (modify_out (store_results action_idx action results)) (\<lambda>_.
        bind (lift (call (asyncio_sleep env))) (\<lambda>_.
        bind (lift (record_artifacts_after_action env task step browser_state)) (\<lambda>_.
        bind (modify_out (store_results action_idx action (stamp_results step results))) (\<lambda>_.
        bind (modify_out (extend_action_results (stamp_results step results))) (\<lambda>_.
        if results \<noteq> [] \<and> success (last (stamp_results step results)) then
          (if javascript_triggered (last (stamp_results step results)) then ret None
           else execute_actions env task browser_state scraped_page rest
                  (case web_element_id action of
                     None \<Rightarrow> web_action_element_ids
                   | Some element_id \<Rightarrow> insert element_id web_action_element_ids))
        else
          bind get_out (\<lambda>d.
          bind (lift (update_step env step (Some S_failed)
                        (Some (to_agent_step_output env d)) None None)) (\<lambda>failed_step.
          ret (Some (failed_step, d)))))))))))))"

text \<open>
  Lines 349-465: from \<open>detailed_agent_step_output.actions = actions\<close> to the last
  \<open>return\<close> of the \<open>try\<close> block.
\<close>

definition run_actions ::
  "'w env \<Rightarrow> Task \<Rightarrow> BrowserState \<Rightarrow> ScrapedPage \<Rightarrow> string \<Rightarrow> json option \<Rightarrow> Action list
     \<Rightarrow> ('w frame, Step \<times> DetailedAgentStepOutput) io" where
  "run_actions env task browser_state scraped_page extract_action_prompt json_response actions =
     bind (modify_out (\<lambda>d. d\<lparr>d_actions := Some actions\<rparr>)) (\<lambda>_.
     if length actions = 0 then
       bind get_step (\<lambda>step0.
       bind get_out (\<lambda>d.
       bind (lift (update_step env step0 (Some S_failed)
                     (Some (to_agent_step_output env d)) None None)) (\<lambda>step.
       bind (set_step step) (\<lambda>_.
       bind (modify_out (\<lambda>_.
               \<lparr> d_scraped_page = Some scraped_page,
                 d_extract_action_prompt = Some extract_action_prompt,
                 d_llm_response = json_response,
                 d_actions = Some actions,
                 d_action_results = Some [],
                 d_actions_and_results = Some [] \<rparr>)) (\<lambda>_.
       bind get_out (\<lambda>d'.
       ret (step, d')))))))
     else
       bind (modify_out (\<lambda>d. d\<lparr>d_action_results := Some []\<rparr>)) (\<lambda>_.
       bind (modify_out (\<lambda>d. d\<lparr>d_actions_and_results :=
               Some (map (\<lambda>action. (action, [])) (prune_wait_actions actions))\<rparr>)) (\<lambda>_.
       bind (execute_actions env task browser_state scraped_page
               (enumerate 0 (prune_wait_actions actions)) {}) (\<lambda>returned.
       case returned of
         Some r \<Rightarrow> ret r
       | None \<Rightarrow>
           bind get_step (\<lambda>step.
           bind get_out (\<lambda>d.
           bind (lift (update_step env step (Some S_completed)
                         (Some (to_agent_step_output env d)) None None)) (\<lambda>completed_step.
           ret (completed_step, d))))))))"

definition agent_step_body ::
  "'w env \<Rightarrow> Task \<Rightarrow> BrowserState \<Rightarrow> ('w frame, Step \<times> DetailedAgentStepOutput) io" where
  "agent_step_body env task browser_state =
     bind (obtain_actions env task browser_state)
       (\<lambda>(scraped_page, extract_action_prompt, json_response, actions).
     run_actions env task browser_state scraped_page extract_action_prompt json_response actions)"

text \<open>
  The method: the body in its \<open>try\<close>, and the \<open>except Exception\<close> clause of lines 466-477,
  which calls \<open>update_step\<close> itself, outside of any \<open>try\<close>. What the body raises that is
  not an \<open>Exception\<close> leaves the method as it is.
\<close>

definition agent_step ::
  "'w env \<Rightarrow> Task \<Rightarrow> Step \<Rightarrow> BrowserState \<Rightarrow> ('w world, Step \<times> DetailedAgentStepOutput) io" where
  "agent_step env task step browser_state =
     (\<lambda>w. case agent_step_body env task browser_state
                  \<lparr> f_world = w, f_step = step, f_out = empty_detailed_output \<rparr> of
             (Inr r, f) \<Rightarrow> (Inr r, f_world f)
           | (Inl e, f) \<Rightarrow>
               if is_Exception e then
                 bind (update_step env (f_step f) (Some S_failed)
                         (Some (to_agent_step_output env (f_out f))) None None) (\<lambda>failed_step.
                 ret (failed_step, f_out f)) (f_world f)
               else (Inl e, f_world f))"

subsection \<open>The responder (lines 680-859)\<close>

definition cleanup_browser_and_create_artifacts ::
  "'w env \<Rightarrow> bool \<Rightarrow> Step \<Rightarrow> Task \<Rightarrow> ('w world, unit) io" where
  "cleanup_browser_and_create_artifacts env close_browser_on_completion last_step task =
     bind (emit (CallCleanupForTask (task_id task) close_browser_on_completion)) (\<lambda>_.
     bind (call (cleanup_for_task env (task_id task) close_browser_on_completion))
       (\<lambda>browser_state.
     case browser_state of
       None \<Rightarrow>
         emit (LogInfo ''BrowserState is missing before sending response to webhook_callback_url'')
     | Some bs \<Rightarrow>
         bind (call (get_video_data env (task_id task) bs)) (\<lambda>video_data.
         bind (if video_data \<noteq> [] then
                 bind (read_world (video_artifact_id env bs)) (\<lambda>video_id.
                 call (update_artifact_data env video_id (organization_id task) video_data))
               else ret ()) (\<lambda>_.
         bind (call (get_har_data env (task_id task) bs)) (\<lambda>har_data.
         bind (if har_data \<noteq> [] then
                 bind (call (create_artifact env last_step HAR (Data har_data))) (\<lambda>_. ret ())
               else ret ()) (\<lambda>_.
         bind (read_world (has_browser_context env bs)) (\<lambda>browser_context.
         bind (read_world (traces_dir env bs)) (\<lambda>dir.
         case dir of
           None \<Rightarrow> ret ()
         | Some d \<Rightarrow>
             if browser_context \<and> d \<noteq> [] then
               bind (call (create_artifact env last_step TRACE
                       (Path (d @ ''/'' @ task_id task @ ''.zip'')))) (\<lambda>_. ret ())
             else ret ()))))))))"

definition webhook_headers :: "string \<Rightarrow> string \<Rightarrow> (string \<times> string) list" where
  "webhook_headers timestamp signature =
     [(''x-skyvern-timestamp'', timestamp),
      (''x-skyvern-signature'', signature),
      (''Content-Type'', ''application/json'')]"

text \<open>
  Lines 804-823: the POST and both logging branches are inside one \<open>try\<close>. The arguments
  of the \<open>Webhook failed\<close> log line are evaluated before the line is logged, and
  \<open>resp.json()\<close> is one of them.
\<close>

definition post_webhook ::
  "'w env \<Rightarrow> Task \<Rightarrow> string \<Rightarrow> string \<Rightarrow> (string \<times> string) list \<Rightarrow> ('w world, unit) io" where
  "post_webhook env task callback_url payload headers =
     catch_Exception
       (bind (emit (CallRequestsPost callback_url payload headers)) (\<lambda>_.
        bind (call (requests_post env callback_url payload headers)) (\<lambda>resp.
        if ok resp then
          emit (LogWebhookSentSuccessfully (task_id task) (status_code resp) (resp_text resp))
        else
          bind (of_result (resp_json resp)) (\<lambda>body.
          emit (LogWebhookFailed (task_id task) (status_code resp) body (resp_text resp))))))
       (\<lambda>e. raise (FailedToSendWebhook (task_id task) e))"

definition execute_task_webhook ::
  "'w env \<Rightarrow> Task \<Rightarrow> Step \<Rightarrow> string option \<Rightarrow> ('w world, unit) io" where
  "execute_task_webhook env task0 last_step api_key =
     (case api_key of
        None \<Rightarrow> emit (LogInfo ''Request has no api key. Not sending task response'')
      | Some key \<Rightarrow>
          if key = [] then emit (LogInfo ''Request has no api key. Not sending task response'')
          else if \<not> truthy_str (webhook_callback_url task0) then
            emit (LogInfo ''Task has no webhook callback url. Not sending task response'')
          else
            bind (call (db_get_artifact env (task_id task0) (step_id last_step)
                    SCREENSHOT_FINAL (organization_id task0))) (\<lambda>screenshot_artifact.
            bind (case screenshot_artifact of
                    None \<Rightarrow> ret None
                  | Some a \<Rightarrow> call (get_share_link env a)) (\<lambda>screenshot_url.
            bind (call (db_get_artifact env (task_id task0) (step_id last_step)
                    RECORDING (organization_id task0))) (\<lambda>recording_artifact.
            bind (case recording_artifact of
                    None \<Rightarrow> ret None
                  | Some a \<Rightarrow> call (get_share_link env a)) (\<lambda>recording_url.
            bind (call (db_get_task env (task_id task0) (organization_id task0)))
              (\<lambda>task_from_db.
            case task_from_db of
              None \<Rightarrow> raise (TaskNotFound (task_id task0) None)
            | Some task \<Rightarrow>
                (case webhook_callback_url task of
                   None \<Rightarrow> emit (LogInfo ''Task has no webhook callback url. Not sending task response'')
                 | Some callback_url \<Rightarrow>
                     if callback_url = [] then
                       emit (LogInfo ''Task has no webhook callback url. Not sending task response'')
                     else
                       bind (read_world (utcnow env)) (\<lambda>now.
                       post_webhook env task callback_url
                         (task_response_json env task screenshot_url recording_url)
                         (webhook_headers (str_int now)
                            (generate_skyvern_signature env
                               (task_response_json env task screenshot_url recording_url)
                               key))))))))))"

definition send_task_response ::
  "'w env \<Rightarrow> Task \<Rightarrow> Step \<Rightarrow> string option \<Rightarrow> bool \<Rightarrow> ('w world, unit) io" where
  "send_task_response env task0 last_step api_key close_browser_on_completion =
     bind (catch_Exception
             (bind (call (db_get_task env (task_id task0) (organization_id task0)))
                (\<lambda>refreshed_task.
              case refreshed_task of
                None \<Rightarrow> raise (TaskNotFound (task_id task0) None)
              | Some t \<Rightarrow> ret t))
             (\<lambda>e. raise (TaskNotFound (task_id task0) (Some e)))) (\<lambda>task.
     bind (call (analytics_capture env ''skyvern-oss-agent-task-status'' (t_status task))) (\<lambda>_.
     bind (call (get_or_create_for_task env task)) (\<lambda>browser_state.
     bind (call (get_or_create_page env browser_state)) (\<lambda>_.
     bind (catch
             (bind (emit CallTakeScreenshot) (\<lambda>_.
              bind (call (take_screenshot env browser_state)) (\<lambda>screenshot.
              bind (call (create_artifact env last_step SCREENSHOT_FINAL (Data screenshot))) (\<lambda>_.
              ret ()))))
             (\<lambda>e. if e = TargetClosedError then ret () else raise e)) (\<lambda>_.
     if truthy_str (workflow_run_id task) then
       emit (LogInfo ''Task is part of a workflow run, not sending a webhook response'')
     else
       bind (cleanup_browser_and_create_artifacts env close_browser_on_completion last_step task)
         (\<lambda>_.
       bind (emit (CallWaitForUpload (task_id task))) (\<lambda>_.
       bind (call (wait_for_upload_aiotasks_for_task env (task_id task))) (\<lambda>_.
       execute_task_webhook env task last_step api_key))))))))"

subsection \<open>\<open>create_task_and_step_from_block\<close> (lines 96-170)\<close>

text \<open>\<open>d[key] = value\<close> on a dictionary kept in insertion order.\<close>

fun dict_set :: "(string \<times> json) list \<Rightarrow> string \<Rightarrow> json \<Rightarrow> (string \<times> json) list" where
  "dict_set [] k v = [(k, v)]"
| "dict_set ((k', v') # kvs) k v =
     (if k' = k then (k', v) # kvs else (k', v') # dict_set kvs k v)"

fun collect_navigation_payload ::
  "'w env \<Rightarrow> WorkflowRunContext \<Rightarrow> string list \<Rightarrow> (string \<times> json) list
     \<Rightarrow> ('w world, (string \<times> json) list) io" where
  "collect_navigation_payload env ctx [] payload = ret payload"
| "collect_navigation_payload env ctx (key # keys) payload =
     bind (call (context_get_value env ctx key)) (\<lambda>v.
     collect_navigation_payload env ctx keys (dict_set payload key v))"

definition block_task_args ::
  "TaskBlock \<Rightarrow> Workflow \<Rightarrow> WorkflowRun \<Rightarrow> string \<Rightarrow> (string \<times> json) list \<Rightarrow> int \<Rightarrow> int
     \<Rightarrow> CreateTaskArgs" where
  "block_task_args task_block workflow workflow_run task_url payload task_order task_retry =
     \<lparr> ct_url = task_url,
       ct_title = tb_title task_block,
       ct_webhook_callback_url = None,
       ct_navigation_goal = tb_navigation_goal task_block,
       ct_data_extraction_goal = tb_data_extraction_goal task_block,
       ct_navigation_payload = JDict payload,
       ct_organization_id = wf_organization_id workflow,
       ct_proxy_location = wr_proxy_location workflow_run,
       ct_extracted_information_schema = tb_data_schema task_block,
       ct_workflow_run_id = Some (wr_workflow_run_id workflow_run),
       ct_order = Some task_order,
       ct_retry = Some task_retry,
       ct_error_code_mapping = tb_error_code_mapping task_block \<rparr>"

definition create_task_and_step_from_block ::
  "'w env \<Rightarrow> TaskBlock \<Rightarrow> Workflow \<Rightarrow> WorkflowRun \<Rightarrow> WorkflowRunContext \<Rightarrow> int \<Rightarrow> int
     \<Rightarrow> ('w world, Task \<times> Step) io" where
  "create_task_and_step_from_block env task_block workflow workflow_run ctx task_order task_retry =
     bind (collect_navigation_payload env ctx (tb_parameter_keys task_block) [])
       (\<lambda>payload.
     bind (case tb_url task_block of
             Some u \<Rightarrow> ret u
           | None \<Rightarrow>
               bind (call (get_or_create_for_workflow_run env workflow_run None))
                 (\<lambda>browser_state.
               bind (read_world (page_url env browser_state)) (\<lambda>page.
               case page of
                 None \<Rightarrow> raise (MissingBrowserStatePage (wr_workflow_run_id workflow_run))
               | Some u \<Rightarrow>
                   if u = ''about:blank''
                   then raise (InvalidWorkflowTaskURLState (wr_workflow_run_id workflow_run))
                   else ret u))) (\<lambda>task_url.
     bind (emit (CallDbCreateTask (block_task_args task_block workflow workflow_run task_url
             payload task_order task_retry))) (\<lambda>_.
     bind (call (db_create_task env (block_task_args task_block workflow workflow_run task_url
             payload task_order task_retry))) (\<lambda>task.
     bind (emit (CallDbUpdateTask (task_id task) (organization_id task)
             [(''status'', PyTaskStatus T_running)])) (\<lambda>_.
     bind (call (db_update_task env (task_id task) (organization_id task)
             [(''status'', PyTaskStatus T_running)])) (\<lambda>task'.
     bind (emit (CallDbCreateStep (task_id task') (organization_id task') 0 0)) (\<lambda>_.
     bind (call (db_create_step env (task_id task') (organization_id task') 0 0)) (\<lambda>step.
     ret (task', step)))))))))"

subsection \<open>Observations on the trace\<close>

definition dispatch_of :: "event \<Rightarrow> Action option" where
  "dispatch_of ev = (case ev of CallHandleAction a \<Rightarrow> Some a | _ \<Rightarrow> None)"

definition post_of :: "event \<Rightarrow> (string \<times> string \<times> (string \<times> string) list) option" where
  "post_of ev = (case ev of CallRequestsPost u p h \<Rightarrow> Some (u, p, h) | _ \<Rightarrow> None)"

definition teardown_of :: "event \<Rightarrow> event option" where
  "teardown_of ev =
     (case ev of
        CallCleanupForTask t c \<Rightarrow> Some ev
      | CallWaitForUpload t \<Rightarrow> Some ev
      | _ \<Rightarrow> None)"

definition create_task_of :: "event \<Rightarrow> CreateTaskArgs option" where
  "create_task_of ev = (case ev of CallDbCreateTask args \<Rightarrow> Some args | _ \<Rightarrow> None)"

text \<open>The actions dispatched to \<open>ActionHandler.handle_action\<close>, in order.\<close>

definition dispatched :: "event list \<Rightarrow> Action list" where
  "dispatched tr = List.map_filter dispatch_of tr"

text \<open>The webhook POSTs attempted, in order.\<close>

definition webhook_posts :: "event list \<Rightarrow> (string \<times> string \<times> (string \<times> string) list) list" where
  "webhook_posts tr = List.map_filter post_of tr"

text \<open>The arguments of the \<open>create_task\<close> calls, in order.\<close>

definition created_tasks :: "event list \<Rightarrow> CreateTaskArgs list" where
  "created_tasks tr = List.map_filter create_task_of tr"

text \<open>
  \<open>adds sel tr P m\<close>: whatever the state, running \<open>m\<close> appends to the selected events of
  the trace a list that satisfies \<open>P\<close>.
\<close>

definition adds ::
  "(event \<Rightarrow> 'b option) \<Rightarrow> ('s \<Rightarrow> event list) \<Rightarrow> ('b list \<Rightarrow> bool) \<Rightarrow> ('s, 'a) io \<Rightarrow> bool" where
  "adds sel tr P m =
     (\<forall>s. \<exists>bs. List.map_filter sel (tr (snd (m s))) = List.map_filter sel (tr s) @ bs \<and> P bs)"

definition frame_trace :: "'w frame \<Rightarrow> event list" where
  "frame_trace f = trace (f_world f)"

text \<open>\<open>keeps sel tr m\<close>: running \<open>m\<close> appends no selected event.\<close>

definition keeps :: "(event \<Rightarrow> 'b option) \<Rightarrow> ('s \<Rightarrow> event list) \<Rightarrow> ('s, 'a) io \<Rightarrow> bool" where
  "keeps sel tr m = (\<forall>s. List.map_filter sel (tr (snd (m s))) = List.map_filter sel (tr s))"

subsection \<open>Fixtures\<close>

text \<open>
  A set of fake collaborators, as a test supplies them, to run the methods on concrete
  inputs: nothing raises, the world has no state, validation accepts everything, and the
  persistence layer answers an update or a creation with a step or task that carries the
  written fields.
\<close>

definition blank_step :: "string \<Rightarrow> string \<Rightarrow> string option \<Rightarrow> Step" where
  "blank_step tid sid org =
     \<lparr> step_id = sid, s_task_id = tid, s_organization_id = org, s_order = 0,
       s_retry_index = 0, s_is_last = False, s_status = S_created, s_output = None \<rparr>"

fun apply_step_updates :: "(string \<times> pyval) list \<Rightarrow> Step \<Rightarrow> Step" where
  "apply_step_updates [] s = s"
| "apply_step_updates ((k, v) # rest) s =
     apply_step_updates rest
       (case v of
          PyStepStatus st \<Rightarrow> s\<lparr>s_status := st\<rparr>
        | PyOutput out \<Rightarrow> s\<lparr>s_output := Some out\<rparr>
        | PyBool b \<Rightarrow> s\<lparr>s_is_last := b\<rparr>
        | PyInt i \<Rightarrow> s\<lparr>s_retry_index := i\<rparr>
        | _ \<Rightarrow> s)"

definition test_task :: Task where
  "test_task =
     \<lparr> task_id = ''t1'', organization_id = Some ''o1'', workflow_run_id = None,
       url = ''https://x'', title = None, navigation_goal = Some ''click login'',
       data_extraction_goal = None, navigation_payload = JDict [], error_code_mapping = None,
       webhook_callback_url = Some ''https://hook'', t_status = T_running,
       extracted_information = None, failure_reason = None \<rparr>"

fun apply_task_updates :: "(string \<times> pyval) list \<Rightarrow> Task \<Rightarrow> Task" where
  "apply_task_updates [] t = t"
| "apply_task_updates ((k, v) # rest) t =
     apply_task_updates rest
       (case v of
          PyTaskStatus st \<Rightarrow> t\<lparr>t_status := st\<rparr>
        | PyJson j \<Rightarrow> t\<lparr>extracted_information := Some j\<rparr>
        | PyStr r \<Rightarrow> t\<lparr>failure_reason := Some r\<rparr>
        | _ \<Rightarrow> t)"

definition test_page :: ScrapedPage where
  "test_page =
     \<lparr> html = ''<html></html>'', elements = [], element_tree = JList [],
       element_tree_trimmed = JList [], id_to_xpath_dict = JDict [], screenshots = [] \<rparr>"

definition test_settings :: Settings where
  "test_settings =
     \<lparr> MAX_RETRIES_PER_STEP = 3, MAX_STEPS_PER_RUN = 10, PROMPT_ACTION_HISTORY_WINDOW = 1 \<rparr>"

definition test_output :: "DetailedAgentStepOutput \<Rightarrow> AgentStepOutput" where
  "test_output d =
     \<lparr> o_action_results = d_action_results d,
       o_actions_and_results = d_actions_and_results d,
       o_errors = [] \<rparr>"

definition test_response :: Response where
  "test_response = \<lparr> ok = True, status_code = 200, resp_text = ''ok'', resp_json = Inr JNull \<rparr>"

definition test_env :: "unit env" where
  "test_env =
     \<lparr> settings = test_settings,
       step_validate_update = (\<lambda>_ _ _ _. None),
       task_validate_update = (\<lambda>_ _ _ _. None),
       to_agent_step_output = test_output,
       parse_actions = (\<lambda>_ _. Inr []),
       is_goal_achieved = (\<lambda>_. False),
       is_terminated = (\<lambda>_. False),
       json_dumps = (\<lambda>_ _. ''json''),
       model_dump = (\<lambda>_. JNull),
       task_response_json = (\<lambda>_ _ _. ''{}''),
       generate_skyvern_signature = (\<lambda>_ _. ''signature''),
       db_update_step = (\<lambda>tid sid org ups x. (Inr (apply_step_updates ups (blank_step tid sid org)), x)),
       db_create_step =
         (\<lambda>tid org ord retry x.
            (Inr ((blank_step tid ''new'' org)\<lparr>s_order := ord, s_retry_index := retry\<rparr>), x)),
       db_update_task = (\<lambda>tid org ups x. (Inr (apply_task_updates ups test_task), x)),
       db_create_task = (\<lambda>args x. (Inr test_task, x)),
       db_get_task = (\<lambda>tid org x. (Inr (Some test_task), x)),
       db_get_task_steps = (\<lambda>tid org x. (Inr [], x)),
       db_get_artifact = (\<lambda>tid sid ty org x. (Inr None, x)),
       scrape_website = (\<lambda>bs u x. (Inr test_page, x)),
       create_artifact = (\<lambda>s ty p x. (Inr ''artifact'', x)),
       update_artifact_data = (\<lambda>a org d x. (Inr (), x)),
       wait_for_upload_aiotasks_for_task = (\<lambda>tid x. (Inr (), x)),
       get_share_link = (\<lambda>a x. (Inr None, x)),
       load_prompt = (\<lambda>name vars x. (Inr ''prompt'', x)),
       llm_api_handler = (\<lambda>p s shots x. (Inr (JDict [(''actions'', JList [])]), x)),
       handle_action = (\<lambda>sp t s bs a x. (Inr [], x)),
       page_url = (\<lambda>bs x. Some ''https://x''),
       video_artifact_id = (\<lambda>bs x. Some ''video''),
       traces_dir = (\<lambda>bs x. None),
       has_browser_context = (\<lambda>bs x. True),
       take_screenshot = (\<lambda>bs x. (Inr ''png'', x)),
       page_content = (\<lambda>bs x. (Inr ''<html></html>'', x)),
       get_video_data = (\<lambda>tid bs x. (Inr ''video'', x)),
       get_har_data = (\<lambda>tid bs x. (Inr ''har'', x)),
       get_or_create_for_task = (\<lambda>t x. (Inr (BrowserRef 0), x)),
       get_or_create_for_workflow_run = (\<lambda>wr u x. (Inr (BrowserRef 0), x)),
       get_or_create_page = (\<lambda>bs x. (Inr (), x)),
       cleanup_for_task = (\<lambda>tid c x. (Inr (Some (BrowserRef 0)), x)),
       requests_post = (\<lambda>u p h x. (Inr test_response, x)),
       analytics_capture = (\<lambda>n s x. (Inr (), x)),
       context_get_value = (\<lambda>c k x. (Inr JNull, x)),
       max_steps_override = (\<lambda>x. None),
       utcnow = (\<lambda>x. 1700000000),
       asyncio_sleep = (\<lambda>x. (Inr (), x)),
       long_running_task_warning_order = (\<lambda>n. Inr (n - 1)) \<rparr>"

definition test_world :: "unit world" where
  "test_world = \<lparr> ext = (), trace = [] \<rparr>"

definition test_step :: Step where
  "test_step = blank_step ''t1'' ''s1'' (Some ''o1'')"

definition complete_action :: Action where
  "complete_action =
     \<lparr> action_type = COMPLETE, web_element_id = None, reasoning = None,
       a_data_extraction_goal = None \<rparr>"


definition click_action :: "string \<Rightarrow> Action" where
  "click_action element_id =
     \<lparr> action_type = CLICK, web_element_id = Some element_id, reasoning = None,
       a_data_extraction_goal = None \<rparr>"

definition ok_result :: ActionResult where
  "ok_result =
     \<lparr> success = True, data = None, javascript_triggered = False,
       step_retry_number = None, step_order = None \<rparr>"

definition alice_result :: ActionResult where
  "alice_result = ok_result\<lparr>data := Some (JDict [(''name'', JStr ''Alice'')])\<rparr>"

text \<open>A completed step whose COMPLETE action succeeded with data \<open>{"name": "Alice"}\<close>.\<close>

definition alice_step :: Step where
  "alice_step =
     (blank_step ''t1'' ''s0'' (Some ''o1''))
       \<lparr> s_status := S_completed,
         s_output := Some \<lparr> o_action_results = Some [alice_result],
                            o_actions_and_results = Some [(complete_action, [alice_result])],
                            o_errors = [] \<rparr> \<rparr>"

text \<open>A server that answers the webhook with status 500 and a body that is not JSON.\<close>

definition error_page_response :: Response where
  "error_page_response =
     \<lparr> ok = False, status_code = 500, resp_text = ''Internal Server Error'',
       resp_json = Inl JSONDecodeError \<rparr>"

text \<open>
  Collaborators for a goal-achieved step: the step counts as goal-achieved, and the task
  has two steps, the second of them \<open>alice_step\<close>.
\<close>

definition alice_env :: "unit env" where
  "alice_env = test_env\<lparr> is_goal_achieved := (\<lambda>_. True),
                         db_get_task_steps := (\<lambda>tid org x. (Inr [test_step, alice_step], x)) \<rparr>"

text \<open>Collaborators whose webhook receiver answers with \<open>error_page_response\<close>.\<close>

definition error_page_env :: "unit env" where
  "error_page_env = test_env\<lparr> requests_post := (\<lambda>u p h x. (Inr error_page_response, x)) \<rparr>"

text \<open>A task that belongs to the workflow run \<open>wr1\<close>, and collaborators that hold it.\<close>

definition workflow_task :: Task where
  "workflow_task = test_task\<lparr> workflow_run_id := Some ''wr1'' \<rparr>"

definition workflow_env :: "unit env" where
  "workflow_env = test_env\<lparr> db_get_task := (\<lambda>tid org x. (Inr (Some workflow_task), x)) \<rparr>"

definition test_block :: TaskBlock where
  "test_block =
     \<lparr> tb_parameter_keys = [''user''], tb_url = Some ''https://x'', tb_title = None,
       tb_navigation_goal = Some ''click login'', tb_data_extraction_goal = None,
       tb_data_schema = None, tb_error_code_mapping = None \<rparr>"

definition test_workflow :: Workflow where
  "test_workflow = \<lparr> workflow_id = ''w1'', wf_organization_id = Some ''o1'' \<rparr>"

definition test_workflow_run :: WorkflowRun where
  "test_workflow_run = \<lparr> wr_workflow_run_id = ''wr1'', wr_proxy_location = None \<rparr>"



definition test_frame :: "unit frame" where
  "test_frame = \<lparr> f_world = test_world, f_step = test_step, f_out = empty_detailed_output \<rparr>"

text \<open>Collaborators whose LLM call raises, and collaborators whose database is down.\<close>

definition llm_down_env :: "unit env" where
  "llm_down_env = test_env\<lparr> llm_api_handler := (\<lambda>p s shots x. (Inl (OtherError ''llm timeout''), x)) \<rparr>"

definition db_down_env :: "unit env" where
  "db_down_env =
     test_env\<lparr> db_update_step := (\<lambda>tid sid org ups x. (Inl (OtherError ''database unavailable''), x)) \<rparr>"


text \<open>Collaborators whose LLM call is cancelled while it is awaited.\<close>

definition cancelled_env :: "unit env" where
  "cancelled_env = test_env\<lparr> llm_api_handler := (\<lambda>p s shots x. (Inl CancelledError, x)) \<rparr>"

text \<open>
  A task whose \<open>workflow_run_id\<close> is the empty string, and collaborators that hold it.
\<close>

definition empty_run_id_task :: Task where
  "empty_run_id_task = test_task\<lparr> workflow_run_id := Some [] \<rparr>"

definition empty_run_id_env :: "unit env" where
  "empty_run_id_env =
     test_env\<lparr> db_get_task := (\<lambda>tid org x. (Inr (Some empty_run_id_task), x)) \<rparr>"

text \<open>
  The state in which \<open>agent_step\<close>, started in \<open>test_frame\<close> with the parsed actions
  \<open>[CLICK e1, CLICK e2]\<close>, enters the executor loop (lines 377-398).
\<close>

definition loop_frame :: "unit frame" where
  "loop_frame =
     \<lparr> f_world = test_world,
       f_step = test_step,
       f_out = empty_detailed_output
         \<lparr> d_actions := Some [click_action ''e1'', click_action ''e2''],
           d_action_results := Some [],
           d_actions_and_results :=
             Some [(click_action ''e1'', []), (click_action ''e2'', [])] \<rparr> \<rparr>"
section \<open>Properties\<close>

subsection \<open>What a computation adds to the trace\<close>

lemma keeps_ret: "keeps sel tr (ret x)"
  by (simp add: keeps_def ret_def)

lemma keeps_raise: "keeps sel tr (raise e)"
  by (simp add: keeps_def raise_def)

lemma keeps_of_result: "keeps sel tr (of_result r)"
  by (simp add: keeps_def of_result_def)

lemma keeps_call: "keeps sel trace (call f)"
  by (simp add: keeps_def call_def split: prod.splits)

lemma keeps_read_world: "keeps sel trace (read_world g)"
  by (simp add: keeps_def read_world_def)

lemma keeps_emit: "sel ev = None \<Longrightarrow> keeps sel trace (emit ev)"
  by (simp add: keeps_def emit_def List.map_filter_def)

lemma keeps_bind:
  assumes "keeps sel tr m" and "\<And>x. keeps sel tr (k x)"
  shows "keeps sel tr (bind m k)"
  unfolding keeps_def
proof
  fix s
  obtain r s1 where ms: "m s = (r, s1)" by (cases "m s")
  have 1: "List.map_filter sel (tr s1) = List.map_filter sel (tr s)"
    using assms(1) ms unfolding keeps_def by (metis snd_conv)
  show "List.map_filter sel (tr (snd (bind m k s))) = List.map_filter sel (tr s)"
  proof (cases r)
    case (Inl e)
    then show ?thesis using 1 by (simp add: bind_def ms)
  next
    case (Inr x)
    then have "bind m k s = k x s1" by (simp add: bind_def ms)
    then show ?thesis using 1 assms(2)[of x] unfolding keeps_def by simp
  qed
qed

lemma keeps_catch:
  assumes "keeps sel tr m" and "\<And>e. keeps sel tr (h e)"
  shows "keeps sel tr (catch m h)"
  unfolding keeps_def
proof
  fix s
  obtain r s1 where ms: "m s = (r, s1)" by (cases "m s")
  have 1: "List.map_filter sel (tr s1) = List.map_filter sel (tr s)"
    using assms(1) ms unfolding keeps_def by (metis snd_conv)
  show "List.map_filter sel (tr (snd (catch m h s))) = List.map_filter sel (tr s)"
  proof (cases r)
    case (Inr x)
    then show ?thesis using 1 by (simp add: catch_def ms)
  next
    case (Inl e)
    then have "catch m h s = h e s1" by (simp add: catch_def ms)
    then show ?thesis using 1 assms(2)[of e] unfolding keeps_def by simp
  qed
qed

lemma keeps_lift: "keeps sel trace m \<Longrightarrow> keeps sel frame_trace (lift m)"
  by (simp add: keeps_def lift_def frame_trace_def split: prod.splits) (metis snd_conv)

lemma keeps_get_step: "keeps sel frame_trace get_step"
  by (simp add: keeps_def get_step_def)

lemma keeps_set_step: "keeps sel frame_trace (set_step s)"
  by (simp add: keeps_def set_step_def frame_trace_def)

lemma keeps_get_out: "keeps sel frame_trace get_out"
  by (simp add: keeps_def get_out_def)

lemma keeps_modify_out: "keeps sel frame_trace (modify_out g)"
  by (simp add: keeps_def modify_out_def frame_trace_def)

lemma keeps_if: "(c \<Longrightarrow> keeps sel tr a) \<Longrightarrow> (\<not> c \<Longrightarrow> keeps sel tr b) \<Longrightarrow> keeps sel tr (if c then a else b)"
  by simp

lemma keeps_case_option:
  "(x = None \<Longrightarrow> keeps sel tr a) \<Longrightarrow> (\<And>v. x = Some v \<Longrightarrow> keeps sel tr (b v))
   \<Longrightarrow> keeps sel tr (case x of None \<Rightarrow> a | Some v \<Rightarrow> b v)"
  by (cases x) simp_all

lemma keeps_case_prod:
  "(\<And>a b. x = (a, b) \<Longrightarrow> keeps sel tr (f a b)) \<Longrightarrow> keeps sel tr (case x of (a, b) \<Rightarrow> f a b)"
  by (cases x) simp

lemma keeps_catch_Exception:
  assumes "keeps sel tr m" and "\<And>e. keeps sel tr (h e)"
  shows "keeps sel tr (catch_Exception m h)"
  unfolding catch_Exception_def
  by (intro keeps_catch keeps_if keeps_raise assms)

lemmas keeps_intros = keeps_ret keeps_raise keeps_of_result keeps_call keeps_read_world
  keeps_bind keeps_catch keeps_catch_Exception keeps_lift keeps_get_step keeps_set_step keeps_get_out keeps_modify_out
  keeps_if keeps_case_option keeps_case_prod

lemma keeps_update_step:
  assumes "\<And>a b c. sel (LogUpdatingStep a b c) = None" and "\<And>a b c d. sel (CallDbUpdateStep a b c d) = None"
  shows "keeps sel trace (update_step env step status output is_last retry_index)"
  unfolding update_step_def
  by (intro keeps_intros keeps_emit assms)

lemma keeps_update_task:
  assumes "\<And>a c. sel (LogUpdatingTask a c) = None" and "\<And>a c d. sel (CallDbUpdateTask a c d) = None"
  shows "keeps sel trace (update_task env task status ei fr)"
  unfolding update_task_def
  by (intro keeps_intros keeps_emit assms)

lemma keeps_record_artifacts:
  assumes "sel CallTakeScreenshot = None"
  shows "keeps sel trace (record_artifacts_after_action env task step bs)"
  unfolding record_artifacts_after_action_def
  by (intro keeps_intros keeps_emit assms)

lemma keeps_build_prompt:
  assumes "\<And>a b. sel (CallLoadPrompt a b) = None"
  shows "keeps sel trace (build_and_record_step_prompt env task step bs)"
  unfolding build_and_record_step_prompt_def
  by (intro keeps_intros keeps_emit assms)

lemma keeps_cleanup:
  assumes "\<And>a b. sel (CallCleanupForTask a b) = None" "\<And>a. sel (LogInfo a) = None"
  shows "keeps sel trace (cleanup_browser_and_create_artifacts env c last_step task)"
  unfolding cleanup_browser_and_create_artifacts_def
  by (intro keeps_intros keeps_emit assms)

lemma keeps_collect_payload:
  "keeps sel trace (collect_navigation_payload env ctx keys payload)"
  by (induction keys arbitrary: payload) (auto intro!: keeps_intros)

lemma keeps_conv:
  "keeps sel tr m \<Longrightarrow> List.map_filter sel (tr (snd (m s))) = List.map_filter sel (tr s)"
  by (simp add: keeps_def)

lemma adds_conv:
  "adds sel tr P m \<Longrightarrow> \<exists>bs. List.map_filter sel (tr (snd (m s))) = List.map_filter sel (tr s) @ bs \<and> P bs"
  by (simp add: adds_def)

lemma adds_keeps: "keeps sel tr m \<Longrightarrow> P [] \<Longrightarrow> adds sel tr P m"
  by (simp add: adds_def keeps_def)

lemma adds_bind_keeps:
  assumes "keeps sel tr m" and "\<And>x. adds sel tr P (k x)" and "P []"
  shows "adds sel tr P (bind m k)"
  unfolding adds_def
proof
  fix s
  obtain r s1 where ms: "m s = (r, s1)" by (cases "m s")
  have 1: "List.map_filter sel (tr s1) = List.map_filter sel (tr s)"
    using keeps_conv[OF assms(1), of s] ms by simp
  show "\<exists>bs. List.map_filter sel (tr (snd (bind m k s))) = List.map_filter sel (tr s) @ bs \<and> P bs"
  proof (cases r)
    case (Inl e)
    then show ?thesis using 1 assms(3) by (simp add: bind_def ms)
  next
    case (Inr x)
    then have "bind m k s = k x s1" by (simp add: bind_def ms)
    then show ?thesis using 1 adds_conv[OF assms(2), of x s1] by simp
  qed
qed


lemma adds_emit_bind:
  fixes k :: "unit \<Rightarrow> ('w world, 'a) io"
  assumes "sel ev = Some b" and "\<And>x. adds sel trace Q (k x)" and "\<And>bs. Q bs \<Longrightarrow> P (b # bs)"
  shows "adds sel trace P (bind (emit ev) k)"
  unfolding adds_def
proof
  fix s :: "'w world"
  let ?s1 = "s\<lparr>trace := trace s @ [ev]\<rparr>"
  have eq: "bind (emit ev) k s = k () ?s1" by (simp add: bind_def emit_def)
  obtain bs where 1: "List.map_filter sel (trace (snd (k () ?s1))) = List.map_filter sel (trace ?s1) @ bs" "Q bs"
    using adds_conv[OF assms(2), of "()" ?s1] by auto
  have "List.map_filter sel (trace ?s1) = List.map_filter sel (trace s) @ [b]"
    using assms(1) by (simp add: List.map_filter_def)
  then show "\<exists>bs. List.map_filter sel (trace (snd (bind (emit ev) k s))) = List.map_filter sel (trace s) @ bs \<and> P bs"
    using 1 assms(3) eq by auto
qed




subsection \<open>The pure parts\<close>



lemma scan_action_results_eq:
  "scan_action_results rs = (case map data (filter success rs) of [] \<Rightarrow> None | d # _ \<Rightarrow> Some d)"
  by (induction rs) auto

lemma case_list_append:
  "(case xs @ ys of [] \<Rightarrow> a | d # _ \<Rightarrow> f d) =
     (case xs of [] \<Rightarrow> (case ys of [] \<Rightarrow> a | d # _ \<Rightarrow> f d) | d # _ \<Rightarrow> f d)"
  by (cases xs) auto

lemma scan_actions_and_results_eq:
  "scan_actions_and_results aars =
     (case concat (map (\<lambda>(action, action_results).
                              if action_type action = COMPLETE
                              then map data (filter success action_results) else []) aars) of
        [] \<Rightarrow> None | d # _ \<Rightarrow> Some d)"
proof (induction aars)
  case Nil
  then show ?case by simp
next
  case (Cons p aars)
  obtain a rs where p: "p = (a, rs)" by (cases p)
  show ?case
  proof (cases "action_type a = COMPLETE")
    case False
    then show ?thesis using Cons by (simp add: p)
  next
    case True
    then show ?thesis using Cons
      by (cases "map data (filter success rs)")
         (simp_all add: p scan_action_results_eq case_list_append)
  qed
qed

lemma scan_steps_eq:
  "scan_steps steps =
     (case concat (map complete_data_of_step (filter qualifying_step steps)) of
        [] \<Rightarrow> None | d # _ \<Rightarrow> d)"
proof (induction steps)
  case Nil
  then show ?case by simp
next
  case (Cons s steps)
  show ?case
  proof (cases "qualifying_step s")
    case False
    then show ?thesis using Cons
      by (auto simp: qualifying_step_def split: option.splits)
  next
    case True
    then obtain out aars where o: "s_status s = S_completed" "s_output s = Some out"
      "o_actions_and_results out = Some aars" "aars \<noteq> []"
      by (auto simp: qualifying_step_def split: option.splits)
    have cd: "complete_data_of_step s =
        concat (map (\<lambda>(action, action_results).
                              if action_type action = COMPLETE
                              then map data (filter success action_results) else []) aars)"
      by (simp add: complete_data_of_step_def o)
    have "scan_steps (s # steps) =
       (case scan_actions_and_results aars of Some d \<Rightarrow> d | None \<Rightarrow> scan_steps steps)"
      by (simp add: o)
    also have "\<dots> = (case complete_data_of_step s of [] \<Rightarrow> scan_steps steps | d # _ \<Rightarrow> d)"
      by (simp add: scan_actions_and_results_eq cd[symmetric] split: list.splits)
    finally have "scan_steps (s # steps) =
        (case complete_data_of_step s of [] \<Rightarrow> scan_steps steps | d # _ \<Rightarrow> d)" .
    then show ?thesis using Cons True
      by (simp add: case_list_append split: list.splits)
  qed
qed

lemma extracted_information_refines:
  "extracted_information_of_steps steps = spec_extracted_information steps"
  by (simp add: extracted_information_of_steps_def spec_extracted_information_def scan_steps_eq)

lemma collect_action_results_eq:
  "collect_action_results acc steps = acc @ concat (map step_action_results steps)"
  by (induction steps arbitrary: acc) (auto simp: step_action_results_def split: option.splits)

lemma prompt_action_results_pos:
  assumes "0 < window"
  shows "prompt_action_results window steps = spec_prompt_action_results (nat window) steps"
proof -
  have "window_steps window steps = spec_last_steps (nat window) steps"
    using assms
    by (auto simp: window_steps_def py_slice_from_def spec_last_steps_def Let_def max_def
        intro!: arg_cong2[where f=drop])
  then show ?thesis
    by (simp add: prompt_action_results_def spec_prompt_action_results_def collect_action_results_eq)
qed

subsection \<open>Evaluation\<close>

lemmas io_defs = bind_def ret_def raise_def catch_def catch_Exception_def of_result_def call_def emit_def read_world_def

lemmas fixture_defs = test_env_def test_task_def test_step_def test_world_def blank_step_def
  test_settings_def test_page_def test_output_def test_response_def

subsection \<open>The effective step ceiling\<close>

text \<open>
  C3, as amended. The step ceiling that \<open>handle_completed_step\<close> compares
  \<open>step.order + 1\<close> with is the first of \<open>context.max_steps_override\<close> and
  \<open>organization.max_steps_per_run\<close> that is defined and not zero, and
  \<open>settings.MAX_STEPS_PER_RUN\<close> when neither is: the code chains the three with \<open>or\<close>,
  which passes over \<open>0\<close> as it passes over \<open>None\<close>.
\<close>

theorem effective_max_steps_first_nonzero:
  "resolve_max_steps_per_run override_max org_max settings_max =
     (if override_max \<noteq> None \<and> override_max \<noteq> Some 0 then the override_max
      else if org_max \<noteq> None \<and> org_max \<noteq> Some 0 then the org_max
      else settings_max)"
  by (auto simp: resolve_max_steps_per_run_def py_or_int_def truthy_int_def split: option.splits)

text \<open>
  With an override of \<open>0\<close>, an organization ceiling of \<open>5\<close> and a setting of \<open>10\<close> the
  code resolves \<open>5\<close>, where the first defined value is \<open>0\<close>.
\<close>

theorem effective_max_steps_zero_counterexample:
  "resolve_max_steps_per_run (Some 0) (Some 5) 10 \<noteq> spec_first_defined (Some 0) (Some 5) 10"
  by (simp add: resolve_max_steps_per_run_def py_or_int_def truthy_int_def spec_first_defined_def)

theorem effective_max_steps_first_nonzero_witness:
  "resolve_max_steps_per_run (Some 0) (Some 5) 10 = 5"
  using effective_max_steps_first_nonzero [of "Some 0" "Some 5" 10] by simp

subsection \<open>\<open>update_step\<close>\<close>

lemma set_step_updates:
  "set (step_updates status output is_last retry_index) =
     {(''status'', PyStepStatus v) | v. status = Some v} \<union>
     {(''output'', PyOutput v) | v. output = Some v} \<union>
     {(''is_last'', PyBool v) | v. is_last = Some v} \<union>
     {(''retry_index'', PyInt v) | v. retry_index = Some v}"
  by (auto simp: step_updates_def split: option.splits)

lemma set_update_comparison:
  "set (update_comparison g ups) = {(k, g k, v) | k v. (k, v) \<in> set ups \<and> g k \<noteq> v}"
  by (auto simp: update_comparison_def)

lemma update_comparison_empty:
  "(update_comparison g ups = []) = (\<forall>(k, v) \<in> set ups. g k = v)"
  by (auto simp: update_comparison_def filter_empty_conv)

text \<open>
  C7, as amended. When \<open>Step.validate_update\<close> accepts the call, \<open>update_step\<close> logs a diff
  and then calls \<open>DATABASE.update_step\<close> once, whose outcome is its own. The fields
  written to persistence are all the fields the caller provided (the arguments that are
  not \<open>None\<close>), whether or not they differ from the step's current values. The logged
  diff maps exactly the provided fields whose new value differs from the current one to
  their old and new values; it is empty when no provided field changes, and the write is
  still made.
\<close>

theorem update_step_writes_provided_fields:
  assumes "step_validate_update env step status output is_last = None"
  shows "\<exists>r x' written diff.
           written = step_updates status output is_last retry_index \<and>
           diff = update_comparison (step_getattr step) written \<and>
           db_update_step env (s_task_id step) (step_id step) (s_organization_id step) written (ext w)
             = (r, x') \<and>
           update_step env step status output is_last retry_index w =
             (r, \<lparr> ext = x',
                   trace = trace w @
                     [LogUpdatingStep (s_task_id step) (step_id step) diff,
                      CallDbUpdateStep (s_task_id step) (step_id step) (s_organization_id step)
                        written] \<rparr>) \<and>
           set written =
             {(''status'', PyStepStatus v) | v. status = Some v} \<union>
             {(''output'', PyOutput v) | v. output = Some v} \<union>
             {(''is_last'', PyBool v) | v. is_last = Some v} \<union>
             {(''retry_index'', PyInt v) | v. retry_index = Some v} \<and>
           set diff = {(k, step_getattr step k, v) | k v.
                         (k, v) \<in> set written \<and> step_getattr step k \<noteq> v} \<and>
           ((\<forall>(k, v) \<in> set written. step_getattr step k = v) \<longrightarrow> diff = [])"
proof -
  obtain r x' where db: "db_update_step env (s_task_id step) (step_id step) (s_organization_id step)
      (step_updates status output is_last retry_index) (ext w) = (r, x')"
    by (cases "db_update_step env (s_task_id step) (step_id step) (s_organization_id step)
      (step_updates status output is_last retry_index) (ext w)")
  have "update_step env step status output is_last retry_index w =
      (r, \<lparr> ext = x',
            trace = trace w @
              [LogUpdatingStep (s_task_id step) (step_id step)
                 (update_comparison (step_getattr step)
                    (step_updates status output is_last retry_index)),
               CallDbUpdateStep (s_task_id step) (step_id step) (s_organization_id step)
                 (step_updates status output is_last retry_index)] \<rparr>)"
    using assms db by (simp add: update_step_def io_defs)
  then show ?thesis
    apply (intro exI[of _ r] exI[of _ x'])
    apply (intro exI[of _ "step_updates status output is_last retry_index"])
    apply (intro exI[of _ "update_comparison (step_getattr step)
                    (step_updates status output is_last retry_index)"])
    using db
    by (simp add: set_step_updates set_update_comparison update_comparison_empty)
qed

text \<open>
  \<open>update_step(step, is_last=False)\<close> on a step whose \<open>is_last\<close> is \<open>False\<close>: the diff is
  empty, and \<open>is_last\<close> is written all the same.
\<close>

theorem update_step_unchanged_field_counterexample:
  "snd (update_step test_env test_step None None (Some False) None test_world) =
     \<lparr> ext = (),
       trace = [LogUpdatingStep ''t1'' ''s1'' [],
                CallDbUpdateStep ''t1'' ''s1'' (Some ''o1'') [(''is_last'', PyBool False)]] \<rparr>
   \<and> step_getattr test_step ''is_last'' = PyBool False"
  by (simp add: update_step_def io_defs fixture_defs step_updates_def update_comparison_def
      step_getattr_def)

theorem update_step_writes_provided_fields_witness:
  "step_validate_update test_env test_step (Some S_running) None (Some False) = None \<and>
   update_step test_env test_step (Some S_running) None (Some False) None test_world =
     (Inr (test_step\<lparr>s_status := S_running\<rparr>),
      \<lparr> ext = (),
        trace = [LogUpdatingStep ''t1'' ''s1'' [(''status'', PyStepStatus S_created, PyStepStatus S_running)],
                 CallDbUpdateStep ''t1'' ''s1'' (Some ''o1'')
                   [(''status'', PyStepStatus S_running), (''is_last'', PyBool False)]] \<rparr>)"
proof -
  have h: "step_validate_update test_env test_step (Some S_running) None (Some False) = None"
    by (simp add: test_env_def)
  from update_step_writes_provided_fields [OF h, of None test_world]
  show ?thesis using h
    by (simp add: fixture_defs step_updates_def update_comparison_def step_getattr_def)
qed

subsection \<open>\<open>handle_failed_step\<close>\<close>

lemma str_int_3: "str_int 3 = ''3''"
  by (simp add: str_int_def str_nat.simps)

text \<open>
  C5. For a failed step with \<open>retry_index < MAX_RETRIES_PER_STEP\<close>, \<open>handle_failed_step\<close>
  asks the persistence layer for a new step with the same \<open>order\<close> and \<open>retry_index + 1\<close>,
  and returns the step it creates. Otherwise it updates the task to \<open>failed\<close> with the
  failure reason \<open>Max retries per step (N) exceeded\<close>, \<open>N\<close> being \<open>MAX_RETRIES_PER_STEP\<close>,
  and returns \<open>None\<close>. The collaborators are taken not to raise: the creation in the first
  case, \<open>Task.validate_update\<close> and the update in the second.
\<close>

theorem handle_failed_step_retries_or_fails:
  assumes retry: "s_retry_index step < MAX_RETRIES_PER_STEP (settings env) \<Longrightarrow>
      db_create_step env (task_id task) (organization_id task) (s_order step)
        (s_retry_index step + 1) (ext w) = (Inr next_step, x2)"
    and give_up: "\<not> s_retry_index step < MAX_RETRIES_PER_STEP (settings env) \<Longrightarrow>
      task_validate_update env task T_failed None
        (Some (''Max retries per step ('' @ str_int (MAX_RETRIES_PER_STEP (settings env))
                 @ '') exceeded'')) = None \<and>
      db_update_task env (task_id task) (organization_id task)
        [(''status'', PyTaskStatus T_failed),
         (''failure_reason'',
          PyStr (''Max retries per step ('' @ str_int (MAX_RETRIES_PER_STEP (settings env))
                   @ '') exceeded''))] (ext w) = (Inr failed_task, x1)"
  shows "handle_failed_step env task step w =
     (if s_retry_index step < MAX_RETRIES_PER_STEP (settings env) then
        (Inr (Some next_step),
         \<lparr> ext = x2,
           trace = trace w @
             [CallDbCreateStep (task_id task) (organization_id task) (s_order step)
                (s_retry_index step + 1)] \<rparr>)
      else
        (Inr None,
         \<lparr> ext = x1,
           trace = trace w @
             [LogUpdatingTask (task_id task)
                (update_comparison (task_getattr task)
                   [(''status'', PyTaskStatus T_failed),
                    (''failure_reason'',
                     PyStr (''Max retries per step (''
                              @ str_int (MAX_RETRIES_PER_STEP (settings env)) @ '') exceeded''))]),
              CallDbUpdateTask (task_id task) (organization_id task)
                [(''status'', PyTaskStatus T_failed),
                 (''failure_reason'',
                  PyStr (''Max retries per step (''
                           @ str_int (MAX_RETRIES_PER_STEP (settings env)) @ '') exceeded''))]] \<rparr>))"
proof (cases "s_retry_index step < MAX_RETRIES_PER_STEP (settings env)")
  case True
  then show ?thesis using retry
    by (simp add: handle_failed_step_def io_defs)
next
  case False
  then show ?thesis using give_up
    by (simp add: handle_failed_step_def update_task_def task_updates_def max_retries_message_def io_defs)
qed

theorem handle_failed_step_retries_or_fails_witness:
  "handle_failed_step test_env test_task (test_step\<lparr>s_retry_index := 3\<rparr>) test_world =
     (Inr None,
      \<lparr> ext = (),
        trace =
          [LogUpdatingTask ''t1''
             [(''status'', PyTaskStatus T_running, PyTaskStatus T_failed),
              (''failure_reason'', PyNone, PyStr ''Max retries per step (3) exceeded'')],
           CallDbUpdateTask ''t1'' (Some ''o1'')
             [(''status'', PyTaskStatus T_failed),
              (''failure_reason'', PyStr ''Max retries per step (3) exceeded'')]] \<rparr>)
   \<and> handle_failed_step test_env test_task (test_step\<lparr>s_order := 4, s_retry_index := 2\<rparr>) test_world =
     (Inr (Some ((blank_step ''t1'' ''new'' (Some ''o1''))\<lparr>s_order := 4, s_retry_index := 3\<rparr>)),
      \<lparr> ext = (), trace = [CallDbCreateStep ''t1'' (Some ''o1'') 4 3] \<rparr>)"
proof -
  have a: "handle_failed_step test_env test_task (test_step\<lparr>s_retry_index := 3\<rparr>) test_world =
     (Inr None,
      \<lparr> ext = (),
        trace =
          [LogUpdatingTask ''t1''
             [(''status'', PyTaskStatus T_running, PyTaskStatus T_failed),
              (''failure_reason'', PyNone, PyStr ''Max retries per step (3) exceeded'')],
           CallDbUpdateTask ''t1'' (Some ''o1'')
             [(''status'', PyTaskStatus T_failed),
              (''failure_reason'', PyStr ''Max retries per step (3) exceeded'')]] \<rparr>)"
    using handle_failed_step_retries_or_fails [of "test_step\<lparr>s_retry_index := 3\<rparr>" test_env
        test_task test_world undefined "()" "test_task\<lparr>t_status := T_failed,
          failure_reason := Some ''Max retries per step (3) exceeded''\<rparr>" "()"]
    by (simp add: fixture_defs str_int_3 update_comparison_def task_getattr_def)
  have b: "handle_failed_step test_env test_task (test_step\<lparr>s_order := 4, s_retry_index := 2\<rparr>) test_world =
     (Inr (Some ((blank_step ''t1'' ''new'' (Some ''o1''))\<lparr>s_order := 4, s_retry_index := 3\<rparr>)),
      \<lparr> ext = (), trace = [CallDbCreateStep ''t1'' (Some ''o1'') 4 3] \<rparr>)"
    using handle_failed_step_retries_or_fails [of "test_step\<lparr>s_order := 4, s_retry_index := 2\<rparr>" test_env
        test_task test_world "(blank_step ''t1'' ''new'' (Some ''o1''))\<lparr>s_order := 4, s_retry_index := 3\<rparr>"
        "()" undefined undefined]
    by (simp add: fixture_defs)
  show ?thesis using a b by simp
qed

subsection \<open>The extracted information of a completed task\<close>

text \<open>
  C8. The value that \<open>get_extracted_information_for_task\<close> computes from the task's steps
  is the data of the most recent successful COMPLETE action: the steps in reverse order,
  without those that are not completed or have no \<open>actions_and_results\<close>, and the first
  successful result of a COMPLETE action found in them (\<open>None\<close> when there is none). When
  the step's goal is achieved, \<open>handle_completed_step\<close> marks the step as last, computes
  that value from the steps the persistence layer returns, and updates the task to
  \<open>completed\<close> with it as \<open>extracted_information\<close> (the field is left out of the write when
  the value is \<open>None\<close>). The collaborators are taken not to raise.
\<close>

theorem goal_achieved_stores_latest_complete_data:
  assumes goal: "is_goal_achieved env step"
    and v1: "step_validate_update env step None None (Some True) = None"
    and d1: "db_update_step env (s_task_id step) (step_id step) (s_organization_id step)
               [(''is_last'', PyBool True)] (ext w) = (Inr last_step, x1)"
    and d2: "db_get_task_steps env (task_id task) (organization_id task) x1 = (Inr steps, x2)"
    and v2: "task_validate_update env task T_completed (spec_extracted_information steps) None = None"
    and d3: "db_update_task env (task_id task) (organization_id task)
               ((''status'', PyTaskStatus T_completed) #
                (case spec_extracted_information steps of
                   None \<Rightarrow> []
                 | Some d \<Rightarrow> [(''extracted_information'', PyJson d)])) x2 = (Inr completed_task, x3)"
  shows "extracted_information_of_steps steps = spec_extracted_information steps \<and>
         handle_completed_step env organization task step w =
           (Inr (Some True, Some last_step, None),
            \<lparr> ext = x3,
              trace = trace w @
                [LogUpdatingStep (s_task_id step) (step_id step)
                   (update_comparison (step_getattr step) [(''is_last'', PyBool True)]),
                 CallDbUpdateStep (s_task_id step) (step_id step) (s_organization_id step)
                   [(''is_last'', PyBool True)],
                 LogUpdatingTask (task_id task)
                   (update_comparison (task_getattr task)
                      ((''status'', PyTaskStatus T_completed) #
                       (case spec_extracted_information steps of
                          None \<Rightarrow> []
                        | Some d \<Rightarrow> [(''extracted_information'', PyJson d)]))),
                 CallDbUpdateTask (task_id task) (organization_id task)
                   ((''status'', PyTaskStatus T_completed) #
                    (case spec_extracted_information steps of
                       None \<Rightarrow> []
                     | Some d \<Rightarrow> [(''extracted_information'', PyJson d)]))] \<rparr>)"
proof -
  have e: "extracted_information_of_steps steps = spec_extracted_information steps"
    by (rule extracted_information_refines)
  have u: "task_updates T_completed (spec_extracted_information steps) None =
      (''status'', PyTaskStatus T_completed) #
                (case spec_extracted_information steps of
                   None \<Rightarrow> []
                 | Some d \<Rightarrow> [(''extracted_information'', PyJson d)])"
    by (simp add: task_updates_def)
  have s1: "update_step env step None None (Some True) None w =
      (Inr last_step, \<lparr> ext = x1, trace = trace w @
                [LogUpdatingStep (s_task_id step) (step_id step)
                   (update_comparison (step_getattr step) [(''is_last'', PyBool True)]),
                 CallDbUpdateStep (s_task_id step) (step_id step) (s_organization_id step)
                   [(''is_last'', PyBool True)]] \<rparr>)"
    using v1 d1 by (simp add: update_step_def step_updates_def io_defs)
  have s2: "\<And>tr. get_extracted_information_for_task env task \<lparr> ext = x1, trace = tr \<rparr> =
      (Inr (spec_extracted_information steps), \<lparr> ext = x2, trace = tr \<rparr>)"
    using d2 by (simp add: get_extracted_information_for_task_def io_defs e)
  have s3: "\<And>tr. update_task env task T_completed (spec_extracted_information steps) None
       \<lparr> ext = x2, trace = tr \<rparr> =
      (Inr completed_task, \<lparr> ext = x3, trace = tr @
         [LogUpdatingTask (task_id task)
                   (update_comparison (task_getattr task)
                      ((''status'', PyTaskStatus T_completed) #
                       (case spec_extracted_information steps of
                          None \<Rightarrow> []
                        | Some d \<Rightarrow> [(''extracted_information'', PyJson d)]))),
                 CallDbUpdateTask (task_id task) (organization_id task)
                   ((''status'', PyTaskStatus T_completed) #
                    (case spec_extracted_information steps of
                       None \<Rightarrow> []
                     | Some d \<Rightarrow> [(''extracted_information'', PyJson d)]))] \<rparr>)"
    using v2 d3 by (simp add: update_task_def u io_defs)
  have "handle_completed_step env organization task step w =
      bind (update_step env step None None (Some True) None) (\<lambda>last_step.
        bind (get_extracted_information_for_task env task) (\<lambda>extracted_info.
        bind (update_task env task T_completed extracted_info None) (\<lambda>_.
        ret (Some True, Some last_step, None)))) w"
    using goal by (simp add: handle_completed_step_def)
  also have "\<dots> = (Inr (Some True, Some last_step, None),
            \<lparr> ext = x3,
              trace = trace w @
                [LogUpdatingStep (s_task_id step) (step_id step)
                   (update_comparison (step_getattr step) [(''is_last'', PyBool True)]),
                 CallDbUpdateStep (s_task_id step) (step_id step) (s_organization_id step)
                   [(''is_last'', PyBool True)],
                 LogUpdatingTask (task_id task)
                   (update_comparison (task_getattr task)
                      ((''status'', PyTaskStatus T_completed) #
                       (case spec_extracted_information steps of
                          None \<Rightarrow> []
                        | Some d \<Rightarrow> [(''extracted_information'', PyJson d)]))),
                 CallDbUpdateTask (task_id task) (organization_id task)
                   ((''status'', PyTaskStatus T_completed) #
                    (case spec_extracted_information steps of
                       None \<Rightarrow> []
                     | Some d \<Rightarrow> [(''extracted_information'', PyJson d)]))] \<rparr>)"
    by (simp add: bind_def ret_def s1 s2 s3)
  finally show ?thesis using e by simp
qed

theorem goal_achieved_stores_latest_complete_data_witness:
  "is_goal_achieved alice_env alice_step \<and>
   extracted_information_of_steps [test_step, alice_step] = Some (JDict [(''name'', JStr ''Alice'')]) \<and>
   handle_completed_step alice_env \<lparr> org_organization_id = ''o1'', max_steps_per_run = None \<rparr>
       test_task alice_step test_world =
     (Inr (Some True, Some ((blank_step ''t1'' ''s0'' (Some ''o1''))\<lparr>s_is_last := True\<rparr>), None),
      \<lparr> ext = (),
        trace =
          [LogUpdatingStep ''t1'' ''s0'' [(''is_last'', PyBool False, PyBool True)],
           CallDbUpdateStep ''t1'' ''s0'' (Some ''o1'') [(''is_last'', PyBool True)],
           LogUpdatingTask ''t1''
             [(''status'', PyTaskStatus T_running, PyTaskStatus T_completed),
              (''extracted_information'', PyNone, PyJson (JDict [(''name'', JStr ''Alice'')]))],
           CallDbUpdateTask ''t1'' (Some ''o1'')
             [(''status'', PyTaskStatus T_completed),
              (''extracted_information'', PyJson (JDict [(''name'', JStr ''Alice'')]))]] \<rparr>)"
proof -
  have goal: "is_goal_achieved alice_env alice_step" by (simp add: alice_env_def)
  show ?thesis
    using goal goal_achieved_stores_latest_complete_data [of alice_env alice_step test_world
        "(blank_step ''t1'' ''s0'' (Some ''o1''))\<lparr>s_is_last := True\<rparr>" "()" test_task
        "[test_step, alice_step]" "()"
        "test_task\<lparr>t_status := T_completed,
           extracted_information := Some (JDict [(''name'', JStr ''Alice'')])\<rparr>" "()"
        "\<lparr> org_organization_id = ''o1'', max_steps_per_run = None \<rparr>"]
    by (simp add: alice_env_def fixture_defs alice_env_def alice_step_def alice_result_def ok_result_def complete_action_def update_comparison_def step_getattr_def
        task_getattr_def spec_extracted_information_def qualifying_step_def
        complete_data_of_step_def)
qed

subsection \<open>The action history of the prompt\<close>

text \<open>
  C9, at the failing input. With \<open>PROMPT_ACTION_HISTORY_WINDOW = 0\<close> the slice
  \<open>steps[-0:]\<close> is the whole list: the history holds the results of every step, where the
  last \<open>0\<close> steps hold none. For a positive window the code takes the last steps as
  specified (\<open>prompt_action_results_pos\<close>).
\<close>

theorem history_window_zero_inlines_everything:
  "prompt_action_results 0 [alice_step] = [alice_result] \<and>
   spec_prompt_action_results 0 [alice_step] = []"
  by (simp add: prompt_action_results_def window_steps_def py_slice_from_def
      spec_prompt_action_results_def spec_last_steps_def fixture_defs alice_step_def alice_result_def ok_result_def complete_action_def)

subsection \<open>The webhook POST\<close>

text \<open>
  What the \<open>try\<close> block of lines 804-823 does with each outcome of \<open>requests.post\<close>.
\<close>

lemma post_webhook_transport_failure:
  assumes "requests_post env callback_url payload headers (ext w) = (Inl e, x')"
    and "is_Exception e"
  shows "post_webhook env task callback_url payload headers w =
           (Inl (FailedToSendWebhook (task_id task) e),
            \<lparr> ext = x', trace = trace w @ [CallRequestsPost callback_url payload headers] \<rparr>)"
  using assms by (simp add: post_webhook_def io_defs)

lemma post_webhook_ok:
  assumes "requests_post env callback_url payload headers (ext w) = (Inr resp, x')" and "ok resp"
  shows "post_webhook env task callback_url payload headers w =
           (Inr (),
            \<lparr> ext = x', trace = trace w @ [CallRequestsPost callback_url payload headers,
                LogWebhookSentSuccessfully (task_id task) (status_code resp) (resp_text resp)] \<rparr>)"
  using assms by (simp add: post_webhook_def io_defs)

lemma post_webhook_not_ok_json:
  assumes "requests_post env callback_url payload headers (ext w) = (Inr resp, x')" and "\<not> ok resp"
    and "resp_json resp = Inr body"
  shows "post_webhook env task callback_url payload headers w =
           (Inr (),
            \<lparr> ext = x', trace = trace w @ [CallRequestsPost callback_url payload headers,
                LogWebhookFailed (task_id task) (status_code resp) body (resp_text resp)] \<rparr>)"
  using assms by (simp add: post_webhook_def io_defs)

lemma post_webhook_not_ok_not_json:
  assumes "requests_post env callback_url payload headers (ext w) = (Inr resp, x')" and "\<not> ok resp"
    and "resp_json resp = Inl e" and "is_Exception e"
  shows "post_webhook env task callback_url payload headers w =
           (Inl (FailedToSendWebhook (task_id task) e),
            \<lparr> ext = x', trace = trace w @ [CallRequestsPost callback_url payload headers] \<rparr>)"
  using assms by (simp add: post_webhook_def io_defs)

lemma str_int_now: "str_int 1700000000 = ''1700000000''"
  by (simp add: str_int_def str_nat.simps)

text \<open>
  C6, at the failing input. The receiver answers the POST with status 500 and a body that
  is not JSON. \<open>resp.json()\<close>, an argument of the \<open>Webhook failed\<close> log line, raises inside
  the \<open>try\<close>: nothing is logged, and \<open>execute_task_webhook\<close> raises \<open>FailedToSendWebhook\<close>,
  where a non-OK response is to be logged and not raised. A non-OK response with a
  JSON body is logged and raises nothing (\<open>post_webhook_not_ok_json\<close>), and a transport
  failure raises \<open>FailedToSendWebhook\<close> from it (\<open>post_webhook_transport_failure\<close>).
\<close>

theorem webhook_error_page_raises:
  "execute_task_webhook error_page_env test_task test_step (Some ''key'') test_world =
     (Inl (FailedToSendWebhook ''t1'' JSONDecodeError),
      \<lparr> ext = (),
        trace = [CallRequestsPost ''https://hook'' ''{}''
                   [(''x-skyvern-timestamp'', ''1700000000''),
                    (''x-skyvern-signature'', ''signature''),
                    (''Content-Type'', ''application/json'')]] \<rparr>)"
  by (simp add: execute_task_webhook_def post_webhook_def io_defs truthy_str_def
      webhook_headers_def str_int_now is_Exception_def fixture_defs error_page_env_def
      error_page_response_def)

subsection \<open>Tasks of a workflow run\<close>

lemma keeps_final_screenshot:
  assumes "sel CallTakeScreenshot = None"
  shows "keeps sel trace
     (catch
        (bind (emit CallTakeScreenshot) (\<lambda>_.
         bind (call (take_screenshot env browser_state)) (\<lambda>screenshot.
         bind (call (create_artifact env last_step SCREENSHOT_FINAL (Data screenshot))) (\<lambda>_.
         ret ()))))
        (\<lambda>e. if e = TargetClosedError then ret () else raise e))"
  by (intro keeps_intros keeps_emit assms)

lemma keeps_send_task_response_workflow:
  assumes sel: "sel CallTakeScreenshot = None" "\<And>m. sel (LogInfo m) = None"
    and wf: "\<And>t x. db_get_task env (task_id task0) (organization_id task0) (ext w) = (Inr (Some t), x)
               \<Longrightarrow> truthy_str (workflow_run_id t)"
  shows "List.map_filter sel (trace (snd (send_task_response env task0 last_step api_key c w)))
           = List.map_filter sel (trace w)"
proof -
  obtain r x1 where g: "db_get_task env (task_id task0) (organization_id task0) (ext w) = (r, x1)"
    by (cases "db_get_task env (task_id task0) (organization_id task0) (ext w)")
  let ?refresh = "catch_Exception
             (bind (call (db_get_task env (task_id task0) (organization_id task0)))
                (\<lambda>refreshed_task.
              case refreshed_task of
                None \<Rightarrow> raise (TaskNotFound (task_id task0) None)
              | Some t \<Rightarrow> ret t))
             (\<lambda>e. raise (TaskNotFound (task_id task0) (Some e)))"
  show ?thesis
  proof (cases "\<exists>t. r = Inr (Some t)")
    case False
    then have "\<exists>e. ?refresh w = (Inl e, w\<lparr>ext := x1\<rparr>)"
      using g by (cases r) (auto simp: io_defs split: option.splits)
    then show ?thesis by (auto simp: send_task_response_def bind_def)
  next
    case True
    then obtain t where t: "r = Inr (Some t)" by blast
    then have tr: "truthy_str (workflow_run_id t)" using wf g by simp
    have rf: "?refresh w = (Inr t, w\<lparr>ext := x1\<rparr>)" using g t by (simp add: io_defs)
    have k: "keeps sel trace
       (bind (call (analytics_capture env ''skyvern-oss-agent-task-status'' (t_status t))) (\<lambda>_.
     bind (call (get_or_create_for_task env t)) (\<lambda>browser_state.
     bind (call (get_or_create_page env browser_state)) (\<lambda>_.
     bind (catch
             (bind (emit CallTakeScreenshot) (\<lambda>_.
              bind (call (take_screenshot env browser_state)) (\<lambda>screenshot.
              bind (call (create_artifact env last_step SCREENSHOT_FINAL (Data screenshot))) (\<lambda>_.
              ret ()))))
             (\<lambda>e. if e = TargetClosedError then ret () else raise e)) (\<lambda>_.
       emit (LogInfo ''Task is part of a workflow run, not sending a webhook response''))))))"
      by (intro keeps_intros keeps_emit sel)
    have "send_task_response env task0 last_step api_key c w =
      (bind (call (analytics_capture env ''skyvern-oss-agent-task-status'' (t_status t))) (\<lambda>_.
     bind (call (get_or_create_for_task env t)) (\<lambda>browser_state.
     bind (call (get_or_create_page env browser_state)) (\<lambda>_.
     bind (catch
             (bind (emit CallTakeScreenshot) (\<lambda>_.
              bind (call (take_screenshot env browser_state)) (\<lambda>screenshot.
              bind (call (create_artifact env last_step SCREENSHOT_FINAL (Data screenshot))) (\<lambda>_.
              ret ()))))
             (\<lambda>e. if e = TargetClosedError then ret () else raise e)) (\<lambda>_.
       emit (LogInfo ''Task is part of a workflow run, not sending a webhook response'')))))) (w\<lparr>ext := x1\<rparr>)"
      unfolding send_task_response_def using rf tr by (simp add: bind_def)
    then show ?thesis using keeps_conv[OF k, of "w\<lparr>ext := x1\<rparr>"] by simp
  qed
qed

lemma bind_Inr_cases:
  assumes "bind m k s = (Inr y, s')"
  obtains x s1 where "m s = (Inr x, s1)" and "k x s1 = (Inr y, s')"
  using assms by (auto simp: bind_def split: prod.splits sum.splits)

lemma call_trace: "call f s = (r, s1) \<Longrightarrow> trace s1 = trace s"
  by (auto simp: call_def split: prod.splits)

lemma final_screenshot_trace:
  assumes "catch
        (bind (emit CallTakeScreenshot) (\<lambda>_.
         bind (call (take_screenshot env browser_state)) (\<lambda>screenshot.
         bind (call (create_artifact env last_step SCREENSHOT_FINAL (Data screenshot))) (\<lambda>_.
         ret ()))))
        (\<lambda>e. if e = TargetClosedError then ret () else raise e) s = (r, s1)"
  shows "trace s1 = trace s @ [CallTakeScreenshot]"
  using assms
  by (auto simp: io_defs split: prod.splits sum.splits if_splits)

lemma send_task_response_workflow_returns:
  assumes g: "db_get_task env (task_id task0) (organization_id task0) (ext w) = (Inr (Some task), x1)"
    and tr: "truthy_str (workflow_run_id task)"
    and ok: "fst (send_task_response env task0 last_step api_key c w) = Inr ()"
  shows "trace (snd (send_task_response env task0 last_step api_key c w)) =
           trace w @ [CallTakeScreenshot,
                      LogInfo ''Task is part of a workflow run, not sending a webhook response'']"
proof -
  obtain s' where res: "send_task_response env task0 last_step api_key c w = (Inr (), s')"
    using ok by (cases "send_task_response env task0 last_step api_key c w") auto
  have rf: "catch_Exception
             (bind (call (db_get_task env (task_id task0) (organization_id task0)))
                (\<lambda>refreshed_task.
              case refreshed_task of
                None \<Rightarrow> raise (TaskNotFound (task_id task0) None)
              | Some t \<Rightarrow> ret t))
             (\<lambda>e. raise (TaskNotFound (task_id task0) (Some e))) w = (Inr task, w\<lparr>ext := x1\<rparr>)"
    using g by (simp add: io_defs)
  from res obtain t s0 where r0: "catch_Exception
             (bind (call (db_get_task env (task_id task0) (organization_id task0)))
                (\<lambda>refreshed_task.
              case refreshed_task of
                None \<Rightarrow> raise (TaskNotFound (task_id task0) None)
              | Some t \<Rightarrow> ret t))
             (\<lambda>e. raise (TaskNotFound (task_id task0) (Some e))) w = (Inr t, s0)"
    and k0: "bind (call (analytics_capture env ''skyvern-oss-agent-task-status'' (t_status t))) (\<lambda>_.
     bind (call (get_or_create_for_task env t)) (\<lambda>browser_state.
     bind (call (get_or_create_page env browser_state)) (\<lambda>_.
     bind (catch
             (bind (emit CallTakeScreenshot) (\<lambda>_.
              bind (call (take_screenshot env browser_state)) (\<lambda>screenshot.
              bind (call (create_artifact env last_step SCREENSHOT_FINAL (Data screenshot))) (\<lambda>_.
              ret ()))))
             (\<lambda>e. if e = TargetClosedError then ret () else raise e)) (\<lambda>_.
     if truthy_str (workflow_run_id t) then
       emit (LogInfo ''Task is part of a workflow run, not sending a webhook response'')
     else
       bind (cleanup_browser_and_create_artifacts env c last_step t)
         (\<lambda>_.
       bind (emit (CallWaitForUpload (task_id t))) (\<lambda>_.
       bind (call (wait_for_upload_aiotasks_for_task env (task_id t))) (\<lambda>_.
       execute_task_webhook env t last_step api_key))))))) s0 = (Inr (), s')"
    unfolding send_task_response_def by (rule bind_Inr_cases)
  from r0 rf have t: "t = task" and s0: "s0 = w\<lparr>ext := x1\<rparr>" by simp_all
  from k0 obtain u1 s1 where c1: "call (analytics_capture env ''skyvern-oss-agent-task-status'' (t_status t)) s0 = (Inr u1, s1)"
    and k1: "bind (call (get_or_create_for_task env t)) (\<lambda>browser_state.
     bind (call (get_or_create_page env browser_state)) (\<lambda>_.
     bind (catch
             (bind (emit CallTakeScreenshot) (\<lambda>_.
              bind (call (take_screenshot env browser_state)) (\<lambda>screenshot.
              bind (call (create_artifact env last_step SCREENSHOT_FINAL (Data screenshot))) (\<lambda>_.
              ret ()))))
             (\<lambda>e. if e = TargetClosedError then ret () else raise e)) (\<lambda>_.
     if truthy_str (workflow_run_id t) then
       emit (LogInfo ''Task is part of a workflow run, not sending a webhook response'')
     else
       bind (cleanup_browser_and_create_artifacts env c last_step t)
         (\<lambda>_.
       bind (emit (CallWaitForUpload (task_id t))) (\<lambda>_.
       bind (call (wait_for_upload_aiotasks_for_task env (task_id t))) (\<lambda>_.
       execute_task_webhook env t last_step api_key)))))) s1 = (Inr (), s')"
    by (rule bind_Inr_cases)
  from k1 obtain bs s2 where c2: "call (get_or_create_for_task env t) s1 = (Inr bs, s2)"
    and k2: "bind (call (get_or_create_page env bs)) (\<lambda>_.
     bind (catch
             (bind (emit CallTakeScreenshot) (\<lambda>_.
              bind (call (take_screenshot env bs)) (\<lambda>screenshot.
              bind (call (create_artifact env last_step SCREENSHOT_FINAL (Data screenshot))) (\<lambda>_.
              ret ()))))
             (\<lambda>e. if e = TargetClosedError then ret () else raise e)) (\<lambda>_.
     if truthy_str (workflow_run_id t) then
       emit (LogInfo ''Task is part of a workflow run, not sending a webhook response'')
     else
       bind (cleanup_browser_and_create_artifacts env c last_step t)
         (\<lambda>_.
       bind (emit (CallWaitForUpload (task_id t))) (\<lambda>_.
       bind (call (wait_for_upload_aiotasks_for_task env (task_id t))) (\<lambda>_.
       execute_task_webhook env t last_step api_key))))) s2 = (Inr (), s')"
    by (rule bind_Inr_cases)
  from k2 obtain u3 s3 where c3: "call (get_or_create_page env bs) s2 = (Inr u3, s3)"
    and k3: "bind (catch
             (bind (emit CallTakeScreenshot) (\<lambda>_.
              bind (call (take_screenshot env bs)) (\<lambda>screenshot.
              bind (call (create_artifact env last_step SCREENSHOT_FINAL (Data screenshot))) (\<lambda>_.
              ret ()))))
             (\<lambda>e. if e = TargetClosedError then ret () else raise e)) (\<lambda>_.
     if truthy_str (workflow_run_id t) then
       emit (LogInfo ''Task is part of a workflow run, not sending a webhook response'')
     else
       bind (cleanup_browser_and_create_artifacts env c last_step t)
         (\<lambda>_.
       bind (emit (CallWaitForUpload (task_id t))) (\<lambda>_.
       bind (call (wait_for_upload_aiotasks_for_task env (task_id t))) (\<lambda>_.
       execute_task_webhook env t last_step api_key)))) s3 = (Inr (), s')"
    by (rule bind_Inr_cases)
  from k3 obtain u4 s4 where c4: "catch
             (bind (emit CallTakeScreenshot) (\<lambda>_.
              bind (call (take_screenshot env bs)) (\<lambda>screenshot.
              bind (call (create_artifact env last_step SCREENSHOT_FINAL (Data screenshot))) (\<lambda>_.
              ret ()))))
             (\<lambda>e. if e = TargetClosedError then ret () else raise e) s3 = (Inr u4, s4)"
    and k4: "(if truthy_str (workflow_run_id t) then
       emit (LogInfo ''Task is part of a workflow run, not sending a webhook response'')
     else
       bind (cleanup_browser_and_create_artifacts env c last_step t)
         (\<lambda>_.
       bind (emit (CallWaitForUpload (task_id t))) (\<lambda>_.
       bind (call (wait_for_upload_aiotasks_for_task env (task_id t))) (\<lambda>_.
       execute_task_webhook env t last_step api_key)))) s4 = (Inr (), s')"
    by (rule bind_Inr_cases)
  have "trace s4 = trace w @ [CallTakeScreenshot]"
    using final_screenshot_trace[OF c4] call_trace[OF c3] call_trace[OF c2] call_trace[OF c1] s0
    by simp
  moreover have "trace s' = trace s4 @ [LogInfo ''Task is part of a workflow run, not sending a webhook response'']"
    using k4 tr t by (auto simp: emit_def)
  ultimately show ?thesis using res by simp
qed

lemma create_task_from_block_adds:
  "adds create_task_of trace (\<lambda>bs. \<forall>a \<in> set bs. ct_webhook_callback_url a = None)
     (create_task_and_step_from_block env task_block workflow workflow_run ctx task_order task_retry)"
  unfolding create_task_and_step_from_block_def
  apply (rule adds_bind_keeps[OF keeps_collect_payload])
   apply (rule adds_bind_keeps)
     apply (intro keeps_intros)
    apply (rule adds_emit_bind[where Q = "\<lambda>bs. bs = []"])
      apply (simp add: create_task_of_def)
     apply (rule adds_keeps)
      apply (intro keeps_intros keeps_emit)
        apply (simp_all add: create_task_of_def block_task_args_def)
  done

text \<open>
  C2, as amended. When the task that \<open>send_task_response\<close> refreshes from the persistence
  layer has a \<open>workflow_run_id\<close> that is a non-empty string, no webhook POST is attempted,
  whatever the collaborators do, and neither the browser teardown nor the wait for the
  uploads is started; if the method returns, it has recorded the final screenshot and the
  log line of the workflow branch, and nothing else. And every \<open>create_task\<close> call that
  \<open>create_task_and_step_from_block\<close> makes carries \<open>webhook_callback_url = None\<close>. The
  code tests the truth value of \<open>workflow_run_id\<close>: the empty string is handled like
  \<open>None\<close>.
\<close>

theorem workflow_task_sends_no_webhook:
  assumes "db_get_task env (task_id task0) (organization_id task0) (ext w) = (Inr (Some task), x1)"
    and "workflow_run_id task = Some wid" and "wid \<noteq> []"
  shows "webhook_posts (trace (snd (send_task_response env task0 last_step api_key c w)))
           = webhook_posts (trace w) \<and>
         List.map_filter teardown_of (trace (snd (send_task_response env task0 last_step api_key c w)))
           = List.map_filter teardown_of (trace w) \<and>
         (fst (send_task_response env task0 last_step api_key c w) = Inr () \<longrightarrow>
            trace (snd (send_task_response env task0 last_step api_key c w)) =
              trace w @ [CallTakeScreenshot,
                         LogInfo ''Task is part of a workflow run, not sending a webhook response'']) \<and>
         (\<exists>new. created_tasks (trace (snd (create_task_and_step_from_block env task_block workflow
                     workflow_run ctx task_order task_retry w2)))
                  = created_tasks (trace w2) @ new \<and>
                (\<forall>args \<in> set new. ct_webhook_callback_url args = None))"
proof -
  have tr: "truthy_str (workflow_run_id task)"
    using assms(2,3) by (simp add: truthy_str_def)
  have wf: "\<And>t x. db_get_task env (task_id task0) (organization_id task0) (ext w) = (Inr (Some t), x)
               \<Longrightarrow> truthy_str (workflow_run_id t)"
    using assms(1) tr by simp
  have 1: "webhook_posts (trace (snd (send_task_response env task0 last_step api_key c w)))
           = webhook_posts (trace w)"
    unfolding webhook_posts_def
    by (rule keeps_send_task_response_workflow[OF _ _ wf]) (simp_all add: post_of_def)
  have 2: "List.map_filter teardown_of (trace (snd (send_task_response env task0 last_step api_key c w)))
           = List.map_filter teardown_of (trace w)"
    by (rule keeps_send_task_response_workflow[OF _ _ wf]) (simp_all add: teardown_of_def)
  have 3: "fst (send_task_response env task0 last_step api_key c w) = Inr () \<longrightarrow>
            trace (snd (send_task_response env task0 last_step api_key c w)) =
              trace w @ [CallTakeScreenshot,
                         LogInfo ''Task is part of a workflow run, not sending a webhook response'']"
    using send_task_response_workflow_returns[OF assms(1) tr] by blast
  have 4: "\<exists>new. created_tasks (trace (snd (create_task_and_step_from_block env task_block workflow
                     workflow_run ctx task_order task_retry w2)))
                  = created_tasks (trace w2) @ new \<and>
                (\<forall>args \<in> set new. ct_webhook_callback_url args = None)"
    unfolding created_tasks_def by (rule adds_conv[OF create_task_from_block_adds])
  show ?thesis using 1 2 3 4 by blast
qed

theorem workflow_task_sends_no_webhook_witness:
  "db_get_task workflow_env (task_id test_task) (organization_id test_task) (ext test_world)
     = (Inr (Some workflow_task), ()) \<and>
   workflow_run_id workflow_task = Some ''wr1'' \<and>
   send_task_response workflow_env test_task test_step (Some ''key'') True test_world =
     (Inr (),
      \<lparr> ext = (),
        trace = [CallTakeScreenshot,
                 LogInfo ''Task is part of a workflow run, not sending a webhook response''] \<rparr>) \<and>
   webhook_posts (trace (snd (send_task_response workflow_env test_task test_step (Some ''key'')
                                True test_world))) = [] \<and>
   map ct_webhook_callback_url
     (created_tasks (trace (snd (create_task_and_step_from_block test_env test_block test_workflow
                                   test_workflow_run (ContextRef 0) 0 0 test_world)))) = [None]"
proof -
  have g: "db_get_task workflow_env (task_id test_task) (organization_id test_task) (ext test_world)
     = (Inr (Some workflow_task), ())"
    by (simp add: workflow_env_def)
  have wid: "workflow_run_id workflow_task = Some ''wr1''"
    by (simp add: workflow_task_def)
  have run: "send_task_response workflow_env test_task test_step (Some ''key'') True test_world =
     (Inr (),
      \<lparr> ext = (),
        trace = [CallTakeScreenshot,
                 LogInfo ''Task is part of a workflow run, not sending a webhook response''] \<rparr>)"
    by (simp add: send_task_response_def io_defs truthy_str_def fixture_defs workflow_env_def workflow_task_def test_block_def test_workflow_def test_workflow_run_def)
  have blk: "map ct_webhook_callback_url
     (created_tasks (trace (snd (create_task_and_step_from_block test_env test_block test_workflow
                                   test_workflow_run (ContextRef 0) 0 0 test_world)))) = [None]"
    by (simp add: create_task_and_step_from_block_def io_defs fixture_defs workflow_env_def workflow_task_def test_block_def test_workflow_def test_workflow_run_def block_task_args_def
        created_tasks_def create_task_of_def List.map_filter_def)
  from workflow_task_sends_no_webhook [OF g wid, of test_step "Some ''key''" True]
  have "webhook_posts (trace (snd (send_task_response workflow_env test_task test_step (Some ''key'')
                                True test_world))) = webhook_posts (trace test_world)"
    by simp
  then show ?thesis using g wid run blk
    by (simp add: webhook_posts_def test_world_def List.map_filter_def)
qed

text \<open>
  The refreshed task carries the empty string as its \<open>workflow_run_id\<close>, which is not
  \<open>None\<close>, and has a webhook callback URL. The test of line 720 is on the truth value, so
  the method goes on: it tears the browser down, waits for the uploads and POSTs the
  webhook.
\<close>

theorem workflow_run_id_empty_posts_webhook_counterexample:
  "workflow_run_id empty_run_id_task = Some [] \<and>
   db_get_task empty_run_id_env (task_id test_task) (organization_id test_task) (ext test_world)
     = (Inr (Some empty_run_id_task), ()) \<and>
   send_task_response empty_run_id_env test_task test_step (Some ''key'') True test_world =
     (Inr (),
      \<lparr> ext = (),
        trace =
          [CallTakeScreenshot,
           CallCleanupForTask ''t1'' True,
           CallWaitForUpload ''t1'',
           CallRequestsPost ''https://hook'' ''{}''
             [(''x-skyvern-timestamp'', ''1700000000''),
              (''x-skyvern-signature'', ''signature''),
              (''Content-Type'', ''application/json'')],
           LogWebhookSentSuccessfully ''t1'' 200 ''ok''] \<rparr>) \<and>
   webhook_posts (trace (snd (send_task_response empty_run_id_env test_task test_step
                                (Some ''key'') True test_world))) =
     [(''https://hook'', ''{}'',
       [(''x-skyvern-timestamp'', ''1700000000''),
        (''x-skyvern-signature'', ''signature''),
        (''Content-Type'', ''application/json'')])]"
  by (simp add: send_task_response_def cleanup_browser_and_create_artifacts_def
      execute_task_webhook_def post_webhook_def io_defs truthy_str_def webhook_headers_def
      str_int_now is_Exception_def webhook_posts_def post_of_def List.map_filter_def
      fixture_defs empty_run_id_env_def empty_run_id_task_def)

subsection \<open>The executor loop\<close>

lemma keeps_dispatch_update_step:
  "keeps dispatch_of trace (update_step env step status output is_last retry_index)"
  by (rule keeps_update_step) (simp_all add: dispatch_of_def)

lemma keeps_dispatch_record_artifacts:
  "keeps dispatch_of trace (record_artifacts_after_action env task step bs)"
  by (rule keeps_record_artifacts) (simp add: dispatch_of_def)







lemma store_results_twice:
  "store_results i a rs (store_results i a rs d) = store_results i a rs d"
  by (cases "d_actions_and_results d") (simp_all add: store_results_def)

lemma extend_action_results_nil: "extend_action_results [] d = d"
  by (cases "d_action_results d") (simp_all add: extend_action_results_def)

lemma update_step_failed_returns:
  assumes v: "step_validate_update env step (Some S_failed) (Some (to_agent_step_output env d)) None = None"
    and db: "db_update_step env (s_task_id step) (step_id step) (s_organization_id step)
               [(''status'', PyStepStatus S_failed), (''output'', PyOutput (to_agent_step_output env d))]
               (ext w) = (Inr failed_step, x')"
  shows "update_step env step (Some S_failed) (Some (to_agent_step_output env d)) None None w =
           (Inr failed_step,
            \<lparr> ext = x',
              trace = trace w @
                [LogUpdatingStep (s_task_id step) (step_id step)
                   (update_comparison (step_getattr step)
                      [(''status'', PyStepStatus S_failed),
                       (''output'', PyOutput (to_agent_step_output env d))]),
                 CallDbUpdateStep (s_task_id step) (step_id step) (s_organization_id step)
                   [(''status'', PyStepStatus S_failed),
                    (''output'', PyOutput (to_agent_step_output env d))]] \<rparr>)"
  using v db by (simp add: update_step_def step_updates_def io_defs)

lemma execute_actions_empty_results:
  assumes nodup: "\<forall>e. web_element_id action = Some e \<longrightarrow> e \<notin> ids"
    and h: "handle_action env scraped_page task (f_step f) browser_state action (ext (f_world f))
              = (Inr [], x1)"
    and sl: "asyncio_sleep env x1 = (rs, x2)"
    and ra: "record_artifacts_after_action env task (f_step f) browser_state
               \<lparr> ext = x2, trace = trace (f_world f) @ [CallHandleAction action] \<rparr> = (ra, w3)"
    and ru: "update_step env (f_step f) (Some S_failed)
               (Some (to_agent_step_output env (store_results action_idx action [] (f_out f))))
               None None w3 = (ru, w4)"
  shows "execute_actions env task browser_state scraped_page ((action_idx, action) # rest) ids f =
      (case rs of
         Inl e \<Rightarrow>
           (Inl e, \<lparr> f_world = \<lparr> ext = x2, trace = trace (f_world f) @ [CallHandleAction action] \<rparr>,
                     f_step = f_step f,
                     f_out = store_results action_idx action [] (f_out f) \<rparr>)
       | Inr _ \<Rightarrow>
      (case ra of
         Inl e \<Rightarrow> (Inl e, \<lparr> f_world = w3, f_step = f_step f,
                             f_out = store_results action_idx action [] (f_out f) \<rparr>)
       | Inr _ \<Rightarrow>
           (case ru of
              Inl e \<Rightarrow> (Inl e, \<lparr> f_world = w4, f_step = f_step f,
                                  f_out = store_results action_idx action [] (f_out f) \<rparr>)
            | Inr failed_step \<Rightarrow>
                (Inr (Some (failed_step, store_results action_idx action [] (f_out f))),
                 \<lparr> f_world = w4, f_step = f_step f,
                   f_out = store_results action_idx action [] (f_out f) \<rparr>))))"
proof -
  have nd: "\<not> (case web_element_id action of None \<Rightarrow> False | Some element_id \<Rightarrow> element_id \<in> ids)"
    using nodup by (cases "web_element_id action") simp_all
  have w1: "(f_world f)\<lparr> trace := trace (f_world f) @ [CallHandleAction action], ext := x2 \<rparr>
            = \<lparr> ext = x2, trace = trace (f_world f) @ [CallHandleAction action] \<rparr>"
    by simp
  show ?thesis
    using nd h sl ra ru
    by (simp add: io_defs lift_def get_step_def get_out_def modify_out_def stamp_results_def
        store_results_twice extend_action_results_nil w1 split: sum.splits)
qed


text \<open>
  C10. An iteration of the executor loop on an action that is not a duplicate web action
  and whose handler returns an empty result list. Whatever the collaborators do, the
  iteration dispatches this action and no other, and does not go on to the next action.
  When the jitter sleep, the artifact recording and the validation of the update return,
  and the persistence layer answers the write of \<open>status = failed\<close> and the accumulated
  output with \<open>failed_step\<close>, the iteration leaves the method by the \<open>return\<close> of line 451:
  the result is \<open>failed_step\<close> with the accumulated output, in which the action is paired
  with its empty result list, and the last two events are the diff log line of
  \<open>update_step\<close> and that write.
\<close>

theorem empty_results_fail_the_step:
  assumes nodup: "\<forall>e. web_element_id action = Some e \<longrightarrow> e \<notin> ids"
    and h: "handle_action env scraped_page task (f_step f) browser_state action (ext (f_world f))
              = (Inr [], x1)"
  shows
    "fst (execute_actions env task browser_state scraped_page ((action_idx, action) # rest) ids f)
       \<noteq> Inr None \<and>
     dispatched (frame_trace (snd (execute_actions env task browser_state scraped_page
                                      ((action_idx, action) # rest) ids f)))
       = dispatched (frame_trace f) @ [action] \<and>
     (\<forall>x2 w3 failed_step x4.
        asyncio_sleep env x1 = (Inr (), x2) \<longrightarrow>
        record_artifacts_after_action env task (f_step f) browser_state
          \<lparr> ext = x2, trace = trace (f_world f) @ [CallHandleAction action] \<rparr> = (Inr (), w3) \<longrightarrow>
        step_validate_update env (f_step f) (Some S_failed)
          (Some (to_agent_step_output env (store_results action_idx action [] (f_out f)))) None
          = None \<longrightarrow>
        db_update_step env (s_task_id (f_step f)) (step_id (f_step f))
          (s_organization_id (f_step f))
          [(''status'', PyStepStatus S_failed),
           (''output'', PyOutput (to_agent_step_output env
                                    (store_results action_idx action [] (f_out f))))]
          (ext w3) = (Inr failed_step, x4) \<longrightarrow>
        execute_actions env task browser_state scraped_page ((action_idx, action) # rest) ids f =
          (Inr (Some (failed_step, store_results action_idx action [] (f_out f))),
           \<lparr> f_world =
               \<lparr> ext = x4,
                 trace = trace w3 @
                   [LogUpdatingStep (s_task_id (f_step f)) (step_id (f_step f))
                      (update_comparison (step_getattr (f_step f))
                         [(''status'', PyStepStatus S_failed),
                          (''output'', PyOutput (to_agent_step_output env
                                                   (store_results action_idx action []
                                                      (f_out f))))]),
                    CallDbUpdateStep (s_task_id (f_step f)) (step_id (f_step f))
                      (s_organization_id (f_step f))
                      [(''status'', PyStepStatus S_failed),
                       (''output'', PyOutput (to_agent_step_output env
                                                (store_results action_idx action []
                                                   (f_out f))))]] \<rparr>,
             f_step = f_step f,
             f_out = store_results action_idx action [] (f_out f) \<rparr>))"
proof -
  let ?w1 = "\<lparr> ext = x1, trace = trace (f_world f) @ [CallHandleAction action] \<rparr>"
  let ?d = "store_results action_idx action [] (f_out f)"
  let ?run = "execute_actions env task browser_state scraped_page ((action_idx, action) # rest) ids f"
  obtain rs x2 where sl: "asyncio_sleep env x1 = (rs, x2)"
    by (cases "asyncio_sleep env x1")
  let ?w2 = "\<lparr> ext = x2, trace = trace (f_world f) @ [CallHandleAction action] \<rparr>"
  obtain ra w3 where ra: "record_artifacts_after_action env task (f_step f) browser_state ?w2 = (ra, w3)"
    by (cases "record_artifacts_after_action env task (f_step f) browser_state ?w2")
  obtain ru w4 where ru: "update_step env (f_step f) (Some S_failed)
      (Some (to_agent_step_output env ?d)) None None w3 = (ru, w4)"
    by (cases "update_step env (f_step f) (Some S_failed)
      (Some (to_agent_step_output env ?d)) None None w3")
  note run = execute_actions_empty_results [where rest = rest, OF nodup h sl ra ru]
  have d2: "dispatched (trace ?w2) = dispatched (frame_trace f) @ [action]"
    by (simp add: dispatched_def dispatch_of_def List.map_filter_def frame_trace_def)
  have d3: "dispatched (trace w3) = dispatched (trace ?w2)"
    using keeps_conv[OF keeps_dispatch_record_artifacts, of env task "f_step f" browser_state ?w2] ra
    by (simp add: dispatched_def)
  have d4: "dispatched (trace w4) = dispatched (trace w3)"
    using keeps_conv[OF keeps_dispatch_update_step, of env "f_step f" "Some S_failed"
        "Some (to_agent_step_output env ?d)" None None w3] ru
    by (simp add: dispatched_def)
  have 1: "fst ?run \<noteq> Inr None"
    unfolding run by (simp split: sum.splits)
  have 2: "dispatched (frame_trace (snd ?run)) = dispatched (frame_trace f) @ [action]"
    unfolding run using d2 d3 d4 by (simp add: frame_trace_def split: sum.splits)
  have 3: "\<forall>x2 w3 failed_step x4.
        asyncio_sleep env x1 = (Inr (), x2) \<longrightarrow>
        record_artifacts_after_action env task (f_step f) browser_state
          \<lparr> ext = x2, trace = trace (f_world f) @ [CallHandleAction action] \<rparr> = (Inr (), w3) \<longrightarrow>
        step_validate_update env (f_step f) (Some S_failed)
          (Some (to_agent_step_output env ?d)) None = None \<longrightarrow>
        db_update_step env (s_task_id (f_step f)) (step_id (f_step f))
          (s_organization_id (f_step f))
          [(''status'', PyStepStatus S_failed),
           (''output'', PyOutput (to_agent_step_output env ?d))]
          (ext w3) = (Inr failed_step, x4) \<longrightarrow>
        ?run =
          (Inr (Some (failed_step, ?d)),
           \<lparr> f_world =
               \<lparr> ext = x4,
                 trace = trace w3 @
                   [LogUpdatingStep (s_task_id (f_step f)) (step_id (f_step f))
                      (update_comparison (step_getattr (f_step f))
                         [(''status'', PyStepStatus S_failed),
                          (''output'', PyOutput (to_agent_step_output env ?d))]),
                    CallDbUpdateStep (s_task_id (f_step f)) (step_id (f_step f))
                      (s_organization_id (f_step f))
                      [(''status'', PyStepStatus S_failed),
                       (''output'', PyOutput (to_agent_step_output env ?d))]] \<rparr>,
             f_step = f_step f,
             f_out = ?d \<rparr>)"
  proof (intro allI impI)
    fix y2 v3 failed_step y4
    assume a: "asyncio_sleep env x1 = (Inr (), y2)"
      and b: "record_artifacts_after_action env task (f_step f) browser_state
          \<lparr> ext = y2, trace = trace (f_world f) @ [CallHandleAction action] \<rparr> = (Inr (), v3)"
      and v: "step_validate_update env (f_step f) (Some S_failed)
          (Some (to_agent_step_output env ?d)) None = None"
      and db: "db_update_step env (s_task_id (f_step f)) (step_id (f_step f))
          (s_organization_id (f_step f))
          [(''status'', PyStepStatus S_failed),
           (''output'', PyOutput (to_agent_step_output env ?d))]
          (ext v3) = (Inr failed_step, y4)"
    note u = update_step_failed_returns [OF v db]
    show "?run =
          (Inr (Some (failed_step, ?d)),
           \<lparr> f_world =
               \<lparr> ext = y4,
                 trace = trace v3 @
                   [LogUpdatingStep (s_task_id (f_step f)) (step_id (f_step f))
                      (update_comparison (step_getattr (f_step f))
                         [(''status'', PyStepStatus S_failed),
                          (''output'', PyOutput (to_agent_step_output env ?d))]),
                    CallDbUpdateStep (s_task_id (f_step f)) (step_id (f_step f))
                      (s_organization_id (f_step f))
                      [(''status'', PyStepStatus S_failed),
                       (''output'', PyOutput (to_agent_step_output env ?d))]] \<rparr>,
             f_step = f_step f,
             f_out = ?d \<rparr>)"
      using execute_actions_empty_results [where rest = rest, OF nodup h a b u]
      by simp
  qed
  show ?thesis using 1 2 3 by blast
qed

text \<open>
  The handler answers every action with an empty list. The loop is entered with
  \<open>[CLICK e1, CLICK e2]\<close>: \<open>e1\<close> is dispatched, the step is written as failed and returned
  with the output, and \<open>e2\<close> is not dispatched.
\<close>

theorem empty_results_fail_the_step_witness:
  "handle_action test_env test_page test_task (f_step loop_frame) (BrowserRef 0)
     (click_action ''e1'') (ext (f_world loop_frame)) = (Inr [], ()) \<and>
   execute_actions test_env test_task (BrowserRef 0) test_page
     [(0, click_action ''e1''), (1, click_action ''e2'')] {} loop_frame =
     (Inr (Some (test_step\<lparr> s_status := S_failed,
                            s_output := Some \<lparr> o_action_results = Some [],
                                               o_actions_and_results =
                                                 Some [(click_action ''e1'', []),
                                                       (click_action ''e2'', [])],
                                               o_errors = [] \<rparr> \<rparr>,
                 f_out loop_frame)),
      loop_frame\<lparr> f_world :=
        \<lparr> ext = (),
          trace =
            [CallHandleAction (click_action ''e1''),
             CallTakeScreenshot,
             LogUpdatingStep ''t1'' ''s1''
               [(''status'', PyStepStatus S_created, PyStepStatus S_failed),
                (''output'', PyNone,
                 PyOutput \<lparr> o_action_results = Some [],
                            o_actions_and_results =
                              Some [(click_action ''e1'', []), (click_action ''e2'', [])],
                            o_errors = [] \<rparr>)],
             CallDbUpdateStep ''t1'' ''s1'' (Some ''o1'')
               [(''status'', PyStepStatus S_failed),
                (''output'',
                 PyOutput \<lparr> o_action_results = Some [],
                            o_actions_and_results =
                              Some [(click_action ''e1'', []), (click_action ''e2'', [])],
                            o_errors = [] \<rparr>)]] \<rparr> \<rparr>) \<and>
   dispatched (frame_trace (snd (execute_actions test_env test_task (BrowserRef 0) test_page
          [(0, click_action ''e1''), (1, click_action ''e2'')] {} loop_frame)))
     = [click_action ''e1''] \<and>
   fst (run_actions test_env test_task (BrowserRef 0) test_page ''prompt'' None
          [click_action ''e1'', click_action ''e2''] test_frame) =
     Inr (test_step\<lparr> s_status := S_failed,
                      s_output := Some \<lparr> o_action_results = Some [],
                                         o_actions_and_results =
                                           Some [(click_action ''e1'', []),
                                                 (click_action ''e2'', [])],
                                         o_errors = [] \<rparr> \<rparr>,
          f_out loop_frame)"
proof -
  have whole: "fst (run_actions test_env test_task (BrowserRef 0) test_page ''prompt'' None
          [click_action ''e1'', click_action ''e2''] test_frame) =
     Inr (test_step\<lparr> s_status := S_failed,
                      s_output := Some \<lparr> o_action_results = Some [],
                                         o_actions_and_results =
                                           Some [(click_action ''e1'', []),
                                                 (click_action ''e2'', [])],
                                         o_errors = [] \<rparr> \<rparr>,
          f_out loop_frame)"
    by (simp add: run_actions_def prune_wait_actions_def enumerate_eq_zip
        record_artifacts_after_action_def update_step_def io_defs lift_def get_step_def
        set_step_def get_out_def modify_out_def stamp_results_def store_results_def
        extend_action_results_def step_updates_def fixture_defs test_frame_def loop_frame_def
        empty_detailed_output_def click_action_def upt_rec)
  have h: "handle_action test_env test_page test_task (f_step loop_frame) (BrowserRef 0)
     (click_action ''e1'') (ext (f_world loop_frame)) = (Inr [], ())"
    by (simp add: test_env_def)
  have nodup: "\<forall>e. web_element_id (click_action ''e1'') = Some e \<longrightarrow> e \<notin> {}"
    by simp
  have sl: "asyncio_sleep test_env () = (Inr (), ())"
    by (simp add: test_env_def)
  have ra: "record_artifacts_after_action test_env test_task (f_step loop_frame) (BrowserRef 0)
          \<lparr> ext = (), trace = trace (f_world loop_frame) @ [CallHandleAction (click_action ''e1'')] \<rparr>
        = (Inr (), \<lparr> ext = (), trace = [CallHandleAction (click_action ''e1''), CallTakeScreenshot] \<rparr>)"
    by (simp add: record_artifacts_after_action_def io_defs fixture_defs loop_frame_def)
  have st: "store_results 0 (click_action ''e1'') [] (f_out loop_frame) = f_out loop_frame"
    by (simp add: store_results_def loop_frame_def empty_detailed_output_def)
  have v: "step_validate_update test_env (f_step loop_frame) (Some S_failed)
          (Some (to_agent_step_output test_env
                   (store_results 0 (click_action ''e1'') [] (f_out loop_frame)))) None = None"
    by (simp add: test_env_def)
  have db: "db_update_step test_env (s_task_id (f_step loop_frame)) (step_id (f_step loop_frame))
          (s_organization_id (f_step loop_frame))
          [(''status'', PyStepStatus S_failed),
           (''output'', PyOutput (to_agent_step_output test_env
                                    (store_results 0 (click_action ''e1'') [] (f_out loop_frame))))]
          (ext \<lparr> ext = (), trace = [CallHandleAction (click_action ''e1''), CallTakeScreenshot] \<rparr>)
        = (Inr (test_step\<lparr> s_status := S_failed,
                            s_output := Some \<lparr> o_action_results = Some [],
                                               o_actions_and_results =
                                                 Some [(click_action ''e1'', []),
                                                       (click_action ''e2'', [])],
                                               o_errors = [] \<rparr> \<rparr>), ())"
    unfolding st by (simp add: fixture_defs loop_frame_def empty_detailed_output_def)
  have d0: "dispatched (frame_trace loop_frame) = []"
    by (simp add: frame_trace_def loop_frame_def test_world_def dispatched_def List.map_filter_def)
  note t = empty_results_fail_the_step [OF nodup h, of 0 "[(1, click_action ''e2'')]"]
  note run = t [THEN conjunct2, THEN conjunct2, rule_format, OF sl ra v db]
  have cmp: "update_comparison (step_getattr (f_step loop_frame))
               [(''status'', PyStepStatus S_failed),
                (''output'',
                 PyOutput \<lparr> o_action_results = Some [],
                            o_actions_and_results =
                              Some [(click_action ''e1'', []), (click_action ''e2'', [])],
                            o_errors = [] \<rparr>)]
             = [(''status'', PyStepStatus S_created, PyStepStatus S_failed),
                (''output'', PyNone,
                 PyOutput \<lparr> o_action_results = Some [],
                            o_actions_and_results =
                              Some [(click_action ''e1'', []), (click_action ''e2'', [])],
                            o_errors = [] \<rparr>)]"
    by (simp add: update_comparison_def step_getattr_def fixture_defs loop_frame_def
        empty_detailed_output_def)
  have out: "to_agent_step_output test_env (f_out loop_frame) =
     \<lparr> o_action_results = Some [],
       o_actions_and_results = Some [(click_action ''e1'', []), (click_action ''e2'', [])],
       o_errors = [] \<rparr>"
    by (simp add: fixture_defs loop_frame_def empty_detailed_output_def)
  have ids: "s_task_id (f_step loop_frame) = ''t1''" "step_id (f_step loop_frame) = ''s1''"
    "s_organization_id (f_step loop_frame) = Some ''o1''"
    by (simp_all add: loop_frame_def fixture_defs)
  have fr: "\<And>w. \<lparr> f_world = w, f_step = f_step loop_frame, f_out = f_out loop_frame \<rparr>
              = loop_frame\<lparr> f_world := w \<rparr>"
    by simp
  show ?thesis
    using h run t [THEN conjunct2, THEN conjunct1] d0 whole
    by (simp add: st cmp out ids fr del: execute_actions.simps)
qed

subsection \<open>The exception handler of \<open>agent_step\<close>\<close>

text \<open>
  C1, as amended. Every \<open>Exception\<close> raised inside the \<open>try\<close> body of \<open>agent_step\<close> is
  caught by the handler, which calls \<open>update_step\<close> with status \<open>failed\<close> and the output
  accumulated when the exception was raised. When that call returns, \<open>agent_step\<close> returns
  the step it returned together with the accumulated output. When that call raises (its
  validation or the persistence layer fails), its exception escapes \<open>agent_step\<close>. What
  the body raises that is not an \<open>Exception\<close> (\<open>asyncio.CancelledError\<close> at an \<open>await\<close>,
  \<open>KeyboardInterrupt\<close>, \<open>SystemExit\<close>) passes the \<open>except Exception\<close> clause and escapes
  as it is, with no call of \<open>update_step\<close>. When the body returns, \<open>agent_step\<close> returns
  its result. \<open>agent_step\<close> raises in these two cases only.
\<close>

theorem agent_step_catches_body_exceptions:
  "(\<forall>e0 f. agent_step_body env task browser_state
              \<lparr> f_world = w, f_step = step, f_out = empty_detailed_output \<rparr> = (Inl e0, f) \<longrightarrow>
      is_Exception e0 \<longrightarrow>
      agent_step env task step browser_state w =
        (case update_step env (f_step f) (Some S_failed)
                (Some (to_agent_step_output env (f_out f))) None None (f_world f) of
           (Inl e, w') \<Rightarrow> (Inl e, w')
         | (Inr failed_step, w') \<Rightarrow> (Inr (failed_step, f_out f), w'))) \<and>
   (\<forall>e0 f. agent_step_body env task browser_state
              \<lparr> f_world = w, f_step = step, f_out = empty_detailed_output \<rparr> = (Inl e0, f) \<longrightarrow>
      \<not> is_Exception e0 \<longrightarrow>
      agent_step env task step browser_state w = (Inl e0, f_world f)) \<and>
   (\<forall>r f. agent_step_body env task browser_state
             \<lparr> f_world = w, f_step = step, f_out = empty_detailed_output \<rparr> = (Inr r, f) \<longrightarrow>
      agent_step env task step browser_state w = (Inr r, f_world f)) \<and>
   (\<forall>e w'. agent_step env task step browser_state w = (Inl e, w') \<longrightarrow>
      (\<exists>e0 f. agent_step_body env task browser_state
                 \<lparr> f_world = w, f_step = step, f_out = empty_detailed_output \<rparr> = (Inl e0, f) \<and>
               (if is_Exception e0
                then update_step env (f_step f) (Some S_failed)
                       (Some (to_agent_step_output env (f_out f))) None None (f_world f)
                     = (Inl e, w')
                else e = e0 \<and> w' = f_world f)))"
proof (intro conjI allI impI)
  fix e0 f
  assume "agent_step_body env task browser_state
              \<lparr> f_world = w, f_step = step, f_out = empty_detailed_output \<rparr> = (Inl e0, f)"
    and "is_Exception e0"
  then show "agent_step env task step browser_state w =
        (case update_step env (f_step f) (Some S_failed)
                (Some (to_agent_step_output env (f_out f))) None None (f_world f) of
           (Inl e, w') \<Rightarrow> (Inl e, w')
         | (Inr failed_step, w') \<Rightarrow> (Inr (failed_step, f_out f), w'))"
    by (simp add: agent_step_def bind_def ret_def split: prod.splits sum.splits)
next
  fix e0 f
  assume "agent_step_body env task browser_state
              \<lparr> f_world = w, f_step = step, f_out = empty_detailed_output \<rparr> = (Inl e0, f)"
    and "\<not> is_Exception e0"
  then show "agent_step env task step browser_state w = (Inl e0, f_world f)"
    by (simp add: agent_step_def)
next
  fix r f
  assume "agent_step_body env task browser_state
             \<lparr> f_world = w, f_step = step, f_out = empty_detailed_output \<rparr> = (Inr r, f)"
  then show "agent_step env task step browser_state w = (Inr r, f_world f)"
    by (simp add: agent_step_def)
next
  fix e w'
  assume a: "agent_step env task step browser_state w = (Inl e, w')"
  obtain r f where b: "agent_step_body env task browser_state
              \<lparr> f_world = w, f_step = step, f_out = empty_detailed_output \<rparr> = (r, f)"
    by (cases "agent_step_body env task browser_state
              \<lparr> f_world = w, f_step = step, f_out = empty_detailed_output \<rparr>")
  show "\<exists>e0 f. agent_step_body env task browser_state
                 \<lparr> f_world = w, f_step = step, f_out = empty_detailed_output \<rparr> = (Inl e0, f) \<and>
               (if is_Exception e0
                then update_step env (f_step f) (Some S_failed)
                       (Some (to_agent_step_output env (f_out f))) None None (f_world f)
                     = (Inl e, w')
                else e = e0 \<and> w' = f_world f)"
  proof (cases r)
    case (Inr x)
    then show ?thesis using a b by (simp add: agent_step_def)
  next
    case (Inl e0)
    then have "if is_Exception e0
                then update_step env (f_step f) (Some S_failed)
                       (Some (to_agent_step_output env (f_out f))) None None (f_world f)
                     = (Inl e, w')
                else e = e0 \<and> w' = f_world f"
      using a b
      by (auto simp: agent_step_def bind_def ret_def split: prod.splits sum.splits if_splits)
    then show ?thesis using b Inl by blast
  qed
qed

text \<open>
  The persistence layer is down: \<open>DATABASE.update_step\<close> raises. The first \<open>update_step\<close> of
  the body raises, the handler catches it and calls \<open>update_step\<close>, which raises again, and
  this exception leaves \<open>agent_step\<close>.
\<close>

theorem agent_step_exception_escapes_counterexample:
  "agent_step db_down_env test_task test_step (BrowserRef 0) test_world =
     (Inl (OtherError ''database unavailable''),
      \<lparr> ext = (),
        trace =
          [LogUpdatingStep ''t1'' ''s1'' [(''status'', PyStepStatus S_created, PyStepStatus S_running)],
           CallDbUpdateStep ''t1'' ''s1'' (Some ''o1'') [(''status'', PyStepStatus S_running)],
           LogUpdatingStep ''t1'' ''s1''
             [(''status'', PyStepStatus S_created, PyStepStatus S_failed),
              (''output'', PyNone,
               PyOutput \<lparr> o_action_results = None, o_actions_and_results = None, o_errors = [] \<rparr>)],
           CallDbUpdateStep ''t1'' ''s1'' (Some ''o1'')
             [(''status'', PyStepStatus S_failed),
              (''output'',
               PyOutput \<lparr> o_action_results = None, o_actions_and_results = None,
                          o_errors = [] \<rparr>)]] \<rparr>)"
  by (simp add: agent_step_def agent_step_body_def obtain_actions_def update_step_def io_defs
      lift_def get_step_def step_updates_def update_comparison_def step_getattr_def
      is_Exception_def fixture_defs db_down_env_def empty_detailed_output_def)

text \<open>
  The LLM call raises an \<open>Exception\<close>: the handler marks the running step as failed, and
  \<open>agent_step\<close> returns it with the output accumulated so far, the scraped page and the
  prompt. The task is cancelled while the LLM call is awaited: \<open>CancelledError\<close> leaves
  \<open>agent_step\<close>, and the last write to the step is the one that set it running.
\<close>

theorem agent_step_catches_body_exceptions_witness:
  "fst (agent_step_body llm_down_env test_task (BrowserRef 0) test_frame)
     = Inl (OtherError ''llm timeout'') \<and>
   is_Exception (OtherError ''llm timeout'') \<and>
   fst (agent_step llm_down_env test_task test_step (BrowserRef 0) test_world) =
     Inr (test_step\<lparr> s_status := S_failed,
                      s_output := Some \<lparr> o_action_results = None, o_actions_and_results = None,
                                         o_errors = [] \<rparr> \<rparr>,
          empty_detailed_output\<lparr> d_scraped_page := Some test_page,
                                 d_extract_action_prompt := Some ''prompt'' \<rparr>) \<and>
   fst (agent_step_body cancelled_env test_task (BrowserRef 0) test_frame) = Inl CancelledError \<and>
   \<not> is_Exception CancelledError \<and>
   agent_step cancelled_env test_task test_step (BrowserRef 0) test_world =
     (Inl CancelledError,
      \<lparr> ext = (),
        trace =
          [LogUpdatingStep ''t1'' ''s1''
             [(''status'', PyStepStatus S_created, PyStepStatus S_running)],
           CallDbUpdateStep ''t1'' ''s1'' (Some ''o1'') [(''status'', PyStepStatus S_running)],
           CallLoadPrompt ''extract-action''
             (prompt_vars cancelled_env test_task test_page [] 1700000000)] \<rparr>)"
proof -
  have body: "agent_step_body llm_down_env test_task (BrowserRef 0)
       \<lparr> f_world = test_world, f_step = test_step, f_out = empty_detailed_output \<rparr> =
     (Inl (OtherError ''llm timeout''),
      \<lparr> f_world =
          \<lparr> ext = (),
            trace =
              [LogUpdatingStep ''t1'' ''s1''
                 [(''status'', PyStepStatus S_created, PyStepStatus S_running)],
               CallDbUpdateStep ''t1'' ''s1'' (Some ''o1'') [(''status'', PyStepStatus S_running)],
               CallLoadPrompt ''extract-action''
                 (prompt_vars llm_down_env test_task test_page [] 1700000000)] \<rparr>,
        f_step = test_step\<lparr> s_status := S_running \<rparr>,
        f_out = empty_detailed_output\<lparr> d_scraped_page := Some test_page,
                                       d_extract_action_prompt := Some ''prompt'' \<rparr> \<rparr>)"
    by (simp add: agent_step_body_def obtain_actions_def build_and_record_step_prompt_def
        update_step_def io_defs lift_def get_step_def set_step_def modify_out_def truthy_str_def
        step_updates_def update_comparison_def step_getattr_def fixture_defs llm_down_env_def
        empty_detailed_output_def)
  have cancelled: "agent_step_body cancelled_env test_task (BrowserRef 0)
       \<lparr> f_world = test_world, f_step = test_step, f_out = empty_detailed_output \<rparr> =
     (Inl CancelledError,
      \<lparr> f_world =
          \<lparr> ext = (),
            trace =
              [LogUpdatingStep ''t1'' ''s1''
                 [(''status'', PyStepStatus S_created, PyStepStatus S_running)],
               CallDbUpdateStep ''t1'' ''s1'' (Some ''o1'') [(''status'', PyStepStatus S_running)],
               CallLoadPrompt ''extract-action''
                 (prompt_vars cancelled_env test_task test_page [] 1700000000)] \<rparr>,
        f_step = test_step\<lparr> s_status := S_running \<rparr>,
        f_out = empty_detailed_output\<lparr> d_scraped_page := Some test_page,
                                       d_extract_action_prompt := Some ''prompt'' \<rparr> \<rparr>)"
    by (simp add: agent_step_body_def obtain_actions_def build_and_record_step_prompt_def
        update_step_def io_defs lift_def get_step_def set_step_def modify_out_def truthy_str_def
        step_updates_def update_comparison_def step_getattr_def fixture_defs cancelled_env_def
        empty_detailed_output_def)
  have exc: "is_Exception (OtherError ''llm timeout'')" and base: "\<not> is_Exception CancelledError"
    by (simp_all add: is_Exception_def)
  note handled = agent_step_catches_body_exceptions [of llm_down_env test_task "BrowserRef 0"
      test_world test_step, THEN conjunct1, rule_format, OF body exc]
  note escaped = agent_step_catches_body_exceptions [of cancelled_env test_task "BrowserRef 0"
      test_world test_step, THEN conjunct2, THEN conjunct1, rule_format, OF cancelled base]
  have first: "fst (agent_step_body llm_down_env test_task (BrowserRef 0) test_frame)
     = Inl (OtherError ''llm timeout'')"
    using body by (simp add: test_frame_def)
  have second: "fst (agent_step llm_down_env test_task test_step (BrowserRef 0) test_world) =
     Inr (test_step\<lparr> s_status := S_failed,
                      s_output := Some \<lparr> o_action_results = None, o_actions_and_results = None,
                                         o_errors = [] \<rparr> \<rparr>,
          empty_detailed_output\<lparr> d_scraped_page := Some test_page,
                                 d_extract_action_prompt := Some ''prompt'' \<rparr>)"
    unfolding handled
    by (simp add: update_step_def io_defs step_updates_def fixture_defs llm_down_env_def
        empty_detailed_output_def)
  have third: "fst (agent_step_body cancelled_env test_task (BrowserRef 0) test_frame)
     = Inl CancelledError"
    using cancelled by (simp add: test_frame_def)
  show ?thesis using first second third exc base escaped by simp
qed

end
